theory Spec2Isabelle
  imports Complex_Main
begin

section \<open>The Historical Feature Store writer\<close>

text \<open>
  A shallow embedding of \<^verbatim>\<open>butterfree/load/writers/historical_feature_store_writer.py\<close>.
  The writer is a thin policy layer over collaborators that are not part of the file: the
  dataframe engine (pyspark), the storage configuration, the hook mechanism of the writer
  base class and the constants modules. The collaborators appear here as values the
  operations receive; every exception is a value of type \<open>error\<close>; the mutation of the
  writer object is explicit state passing; the calls an operation makes on its collaborators
  are returned as a trace.
\<close>

subsection \<open>Python strings and integers\<close>

text \<open>
  \<^verbatim>\<open>str.lower\<close> is modelled on ASCII letters; every other character is kept. (A character
  outside ASCII never lower-cases to a letter of \<^verbatim>\<open>dynamic\<close>.)
\<close>

definition lower_char :: "char \<Rightarrow> char" where
  "lower_char c =
     (case map_of (zip ''ABCDEFGHIJKLMNOPQRSTUVWXYZ'' ''abcdefghijklmnopqrstuvwxyz'') c of
        Some l \<Rightarrow> l
      | None \<Rightarrow> c)"

definition lower :: "string \<Rightarrow> string" where
  "lower s = map lower_char s"

text \<open>The decimal text of a Python \<^verbatim>\<open>int\<close>, as an f-string or \<^verbatim>\<open>str.format\<close> prints it.\<close>

fun digits :: "nat \<Rightarrow> string" where
  "digits n =
     (if n < 10 then [''0123456789'' ! n]
      else digits (n div 10) @ [''0123456789'' ! (n mod 10)])"

definition str_int :: "int \<Rightarrow> string" where
  "str_int i = (if i < 0 then CHR ''-'' # digits (nat (- i)) else digits (nat i))"

text \<open>An optional string inside an f-string: \<^verbatim>\<open>None\<close> prints as \<^verbatim>\<open>None\<close>.\<close>

definition str_opt :: "string option \<Rightarrow> string" where
  "str_opt s = (case s of None \<Rightarrow> ''None'' | Some t \<Rightarrow> t)"

text \<open>\<^verbatim>\<open>needle in haystack\<close> on strings: the needle occurs as a contiguous run.\<close>

fun starts_with :: "string \<Rightarrow> string \<Rightarrow> bool" where
  "starts_with s [] = True"
| "starts_with [] (p # ps) = False"
| "starts_with (c # s) (p # ps) = (c = p \<and> starts_with s ps)"

fun contains :: "string \<Rightarrow> string \<Rightarrow> bool" where
  "contains [] needle = (needle = [])"
| "contains (c # s) needle = (starts_with (c # s) needle \<or> contains s needle)"

text \<open>
  \<^verbatim>\<open>os.path.join(a, *p)\<close> of \<^verbatim>\<open>posixpath\<close>: a component that starts with the separator
  discards what was joined before it; a separator is inserted unless the path so far is
  empty or already ends with one.
\<close>

fun os_path_join :: "string \<Rightarrow> string list \<Rightarrow> string" where
  "os_path_join path [] = path"
| "os_path_join path (b # p) =
     os_path_join
       (if starts_with b ''/'' then b
        else if path = [] \<or> last path = CHR ''/'' then path @ b
        else path @ ''/'' @ b)
       p"

subsection \<open>Exceptions\<close>

datatype error =
    RuntimeError string
  | AssertionError string
  | AnalysisException string
  | NoSuchElementException string
  | OverflowError string
  | CollaboratorError string

subsection \<open>Python numbers\<close>

text \<open>
  A Python number is an \<^verbatim>\<open>int\<close> (unbounded) or a \<^verbatim>\<open>float\<close> (IEEE 754 binary64). A finite
  float is given by an integer \<open>m\<close> and an exponent \<open>e\<close> and stands for \<open>m * 2 ^ e\<close>; the sign
  of a zero is not kept (no operation here tells the two zeros apart).

  \<open>round64 m e\<close> is the float nearest to the exact value \<open>m * 2 ^ e\<close>, ties to even: the
  magnitude keeps 53 bits, or fewer below \<open>2 ^ -1022\<close> where the spacing stays \<open>2 ^ -1074\<close>,
  and a rounded magnitude of \<open>2 ^ 1024\<close> or more is an infinity.
\<close>

fun bit_length :: "nat \<Rightarrow> nat" where
  "bit_length n = (if n = 0 then 0 else bit_length (n div 2) + 1)"

declare bit_length.simps [simp del]

definition round_half_even :: "nat \<Rightarrow> nat \<Rightarrow> nat" where
  "round_half_even n s =
     (let q = n div 2 ^ s; r = n mod 2 ^ s
      in if 2 * r > 2 ^ s \<or> (2 * r = 2 ^ s \<and> odd q) then q + 1 else q)"

datatype pyfloat = Finite int int | PosInf | NegInf | NaN

definition round64 :: "int \<Rightarrow> int \<Rightarrow> pyfloat" where
  "round64 m e =
     (let n = nat \<bar>m\<bar>;
          s = max (int (bit_length n) - 53) (- 1074 - e);
          q = (if s \<le> 0 then n else round_half_even n (nat s));
          e' = (if s \<le> 0 then e else e + s)
      in if int (bit_length q) + e' > 1024 then (if m < 0 then NegInf else PosInf)
         else Finite (sgn m * int q) e')"

text \<open>
  Negation, addition, subtraction and multiplication of floats: the exact result, rounded
  once; the infinities and not-a-number as IEEE 754 has them. No float operation raises.
\<close>

fun float_neg :: "pyfloat \<Rightarrow> pyfloat" where
  "float_neg (Finite m e) = Finite (- m) e"
| "float_neg PosInf = NegInf"
| "float_neg NegInf = PosInf"
| "float_neg NaN = NaN"

fun float_add :: "pyfloat \<Rightarrow> pyfloat \<Rightarrow> pyfloat" where
  "float_add (Finite a ea) (Finite b eb) =
     (let e = min ea eb in round64 (a * 2 ^ nat (ea - e) + b * 2 ^ nat (eb - e)) e)"
| "float_add NaN y = NaN"
| "float_add x NaN = NaN"
| "float_add PosInf NegInf = NaN"
| "float_add NegInf PosInf = NaN"
| "float_add PosInf y = PosInf"
| "float_add NegInf y = NegInf"
| "float_add x PosInf = PosInf"
| "float_add x NegInf = NegInf"

definition float_sub :: "pyfloat \<Rightarrow> pyfloat \<Rightarrow> pyfloat" where
  "float_sub x y = float_add x (float_neg y)"

fun float_sign :: "pyfloat \<Rightarrow> int" where
  "float_sign (Finite m e) = sgn m"
| "float_sign PosInf = 1"
| "float_sign NegInf = - 1"
| "float_sign NaN = 0"

fun float_mul :: "pyfloat \<Rightarrow> pyfloat \<Rightarrow> pyfloat" where
  "float_mul (Finite a ea) (Finite b eb) = round64 (a * b) (ea + eb)"
| "float_mul NaN y = NaN"
| "float_mul x NaN = NaN"
| "float_mul x y =
     (if float_sign x * float_sign y = 0 then NaN
      else if float_sign x * float_sign y > 0 then PosInf
      else NegInf)"

text \<open>
  An \<^verbatim>\<open>int\<close> that meets a float is converted first, correctly rounded; the conversion
  raises when the \<^verbatim>\<open>int\<close> is too large for a finite float.
\<close>

definition float_of_int :: "int \<Rightarrow> error + pyfloat" where
  "float_of_int i =
     (case round64 i 0 of
        Finite m e \<Rightarrow> Inr (Finite m e)
      | _ \<Rightarrow> Inl (OverflowError ''int too large to convert to float''))"

text \<open>
  Python compares a float with an \<^verbatim>\<open>int\<close> by their exact values; every comparison with
  not-a-number is false.
\<close>

fun float_le_int :: "pyfloat \<Rightarrow> int \<Rightarrow> bool" where
  "float_le_int (Finite m e) i =
     (if 0 \<le> e then m * 2 ^ nat e \<le> i else m \<le> i * 2 ^ nat (- e))"
| "float_le_int PosInf i = False"
| "float_le_int NegInf i = True"
| "float_le_int NaN i = False"

fun int_le_float :: "int \<Rightarrow> pyfloat \<Rightarrow> bool" where
  "int_le_float i (Finite m e) =
     (if 0 \<le> e then i \<le> m * 2 ^ nat e else i * 2 ^ nat (- e) \<le> m)"
| "int_le_float i PosInf = True"
| "int_le_float i NegInf = False"
| "int_le_float i NaN = False"

datatype number = PyInt int | PyFloat pyfloat

fun as_float :: "number \<Rightarrow> error + pyfloat" where
  "as_float (PyInt i) = float_of_int i"
| "as_float (PyFloat x) = Inr x"

definition float_op ::
  "(pyfloat \<Rightarrow> pyfloat \<Rightarrow> pyfloat) \<Rightarrow> number \<Rightarrow> number \<Rightarrow> error + number" where
  "float_op f a b =
     (case as_float a of
        Inl e \<Rightarrow> Inl e
      | Inr x \<Rightarrow>
          (case as_float b of
             Inl e \<Rightarrow> Inl e
           | Inr y \<Rightarrow> Inr (PyFloat (f x y))))"

text \<open>
  The operators \<^verbatim>\<open>-\<close>, \<^verbatim>\<open>+\<close>, \<^verbatim>\<open>*\<close>: exact on two \<^verbatim>\<open>int\<close>s, the float operation
  otherwise. The comparison \<^verbatim>\<open><=\<close> of a number with an \<^verbatim>\<open>int\<close>, on either side.
\<close>

fun py_sub :: "number \<Rightarrow> number \<Rightarrow> error + number" where
  "py_sub (PyInt a) (PyInt b) = Inr (PyInt (a - b))"
| "py_sub a b = float_op float_sub a b"

fun py_add :: "number \<Rightarrow> number \<Rightarrow> error + number" where
  "py_add (PyInt a) (PyInt b) = Inr (PyInt (a + b))"
| "py_add a b = float_op float_add a b"

fun py_mul :: "number \<Rightarrow> number \<Rightarrow> error + number" where
  "py_mul (PyInt a) (PyInt b) = Inr (PyInt (a * b))"
| "py_mul a b = float_op float_mul a b"

fun num_le_int :: "number \<Rightarrow> int \<Rightarrow> bool" where
  "num_le_int (PyInt a) i = (a \<le> i)"
| "num_le_int (PyFloat x) i = float_le_int x i"

fun int_le_num :: "int \<Rightarrow> number \<Rightarrow> bool" where
  "int_le_num i (PyInt a) = (i \<le> a)"
| "int_le_num i (PyFloat x) = int_le_float i x"

subsection \<open>The dataframe engine\<close>

text \<open>
  A dataframe is a schema and its rows, with the session's column-name resolution
  (\<^verbatim>\<open>spark.sql.caseSensitive\<close>) and the physical partitioning last requested. A timestamp
  cell carries its calendar fields and the microseconds of its day. Only what the writer
  calls is modelled: \<^verbatim>\<open>df[name]\<close>, \<^verbatim>\<open>year\<close>, \<^verbatim>\<open>month\<close>, \<^verbatim>\<open>dayofmonth\<close> (on a timestamp
  column; the engine's implicit casts of dates and strings are left out),
  \<^verbatim>\<open>withColumn\<close> and \<^verbatim>\<open>count\<close>.
\<close>

datatype dtype = IntegerType | StringType | TimestampType

datatype cell =
    Null
  | IntV int
  | StrV string
  | TsV (ts_year: int) (ts_month: int) (ts_day: int) (ts_micros: nat)

record dataframe =
  case_sensitive :: bool
  schema :: "(string \<times> dtype) list"
  rows :: "cell list list"
  partitioning :: "(string list \<times> int) option"

datatype column = ColRef nat | Year column | Month column | DayOfMonth column

definition same_name :: "dataframe \<Rightarrow> string \<Rightarrow> string \<Rightarrow> bool" where
  "same_name df a b = (if case_sensitive df then a = b else lower a = lower b)"

definition has_column :: "dataframe \<Rightarrow> string \<Rightarrow> bool" where
  "has_column df colName = list_ex (\<lambda>f. same_name df (fst f) colName) (schema df)"

text \<open>\<^verbatim>\<open>df[colName]\<close>: the one column the name resolves to, or an analysis error.\<close>

definition getitem :: "dataframe \<Rightarrow> string \<Rightarrow> error + column" where
  "getitem df colName =
     (case filter (\<lambda>i. same_name df (fst (schema df ! i)) colName) [0 ..< length (schema df)] of
        [] \<Rightarrow> Inl (AnalysisException (''Cannot resolve column name '' @ colName))
      | [i] \<Rightarrow> Inr (ColRef i)
      | _ \<Rightarrow> Inl (AnalysisException (''Reference is ambiguous: '' @ colName)))"

definition year :: "column \<Rightarrow> column" where
  "year c = Year c"

definition month :: "column \<Rightarrow> column" where
  "month c = Month c"

definition dayofmonth :: "column \<Rightarrow> column" where
  "dayofmonth c = DayOfMonth c"

definition extract_field :: "(cell \<Rightarrow> int) \<Rightarrow> cell \<Rightarrow> cell" where
  "extract_field f v = (case v of TsV y m d us \<Rightarrow> IntV (f v) | _ \<Rightarrow> Null)"

fun column_type :: "dataframe \<Rightarrow> column \<Rightarrow> error + dtype" where
  "column_type df (ColRef i) =
     (if i < length (schema df) then Inr (snd (schema df ! i))
      else Inl (AnalysisException ''Cannot resolve column''))"
| "column_type df (Year c) =
     (case column_type df c of
        Inr TimestampType \<Rightarrow> Inr IntegerType
      | Inr _ \<Rightarrow> Inl (AnalysisException ''data type mismatch'')
      | Inl e \<Rightarrow> Inl e)"
| "column_type df (Month c) =
     (case column_type df c of
        Inr TimestampType \<Rightarrow> Inr IntegerType
      | Inr _ \<Rightarrow> Inl (AnalysisException ''data type mismatch'')
      | Inl e \<Rightarrow> Inl e)"
| "column_type df (DayOfMonth c) =
     (case column_type df c of
        Inr TimestampType \<Rightarrow> Inr IntegerType
      | Inr _ \<Rightarrow> Inl (AnalysisException ''data type mismatch'')
      | Inl e \<Rightarrow> Inl e)"

fun eval_column :: "column \<Rightarrow> cell list \<Rightarrow> cell" where
  "eval_column (ColRef i) r = (if i < length r then r ! i else Null)"
| "eval_column (Year c) r = extract_field ts_year (eval_column c r)"
| "eval_column (Month c) r = extract_field ts_month (eval_column c r)"
| "eval_column (DayOfMonth c) r = extract_field ts_day (eval_column c r)"

text \<open>
  \<^verbatim>\<open>df.withColumn(colName, col)\<close> adds the column at the end, or replaces every existing
  column the name resolves to, in place.
\<close>

definition replace_cells :: "dataframe \<Rightarrow> string \<Rightarrow> cell \<Rightarrow> cell list \<Rightarrow> cell list" where
  "replace_cells df colName v r =
     map (\<lambda>(f, old). if same_name df (fst f) colName then v else old) (zip (schema df) r)"

definition withColumn :: "dataframe \<Rightarrow> string \<Rightarrow> column \<Rightarrow> error + dataframe" where
  "withColumn df colName c =
     (case column_type df c of
        Inl e \<Rightarrow> Inl e
      | Inr t \<Rightarrow>
          if has_column df colName
          then Inr (df\<lparr>schema := map (\<lambda>f. if same_name df (fst f) colName then (colName, t) else f)
                                      (schema df),
                        rows := map (\<lambda>r. replace_cells df colName (eval_column c r) r) (rows df)\<rparr>)
          else Inr (df\<lparr>schema := schema df @ [(colName, t)],
                        rows := map (\<lambda>r. r @ [eval_column c r]) (rows df)\<rparr>))"

definition count :: "dataframe \<Rightarrow> int" where
  "count df = int (length (rows df))"

text \<open>
  Modelled from the spec: \<^verbatim>\<open>repartition_df\<close> of \<^verbatim>\<open>butterfree.dataframe_service\<close>, which is
  not part of the file. It redistributes the physical dataframe into the target number of
  partitions, keyed by the given columns, and preserves the rows and their column values.
  Each key is resolved as a column of the dataframe, as \<^verbatim>\<open>df[name]\<close> is: a key that
  names no column, or more than one, is an analysis error of the engine.
\<close>

fun resolve_all :: "dataframe \<Rightarrow> string list \<Rightarrow> error option" where
  "resolve_all df [] = None"
| "resolve_all df (c # cs) =
     (case getitem df c of
        Inl e \<Rightarrow> Some e
      | Inr _ \<Rightarrow> resolve_all df cs)"

definition repartition_df :: "dataframe \<Rightarrow> string list \<Rightarrow> int \<Rightarrow> error + dataframe" where
  "repartition_df df partition_by n =
     (case resolve_all df partition_by of
        Some e \<Rightarrow> Inl e
      | None \<Rightarrow> Inr (df\<lparr>partitioning := Some (partition_by, n)\<rparr>))"

subsection \<open>Collaborators and constants\<close>

text \<open>
  The constants of \<^verbatim>\<open>butterfree.constants.columns\<close> and the values the constructor takes
  from its environment (\<^verbatim>\<open>S3Config()\<close>, the environment variable
  \<^verbatim>\<open>FEATURE_STORE_HISTORICAL_DATABASE\<close>, \<^verbatim>\<open>DEFAULT_NUM_PARTITIONS\<close>) are not part of the
  file: the operations take them as parameters.
\<close>

record columns =
  TIMESTAMP_COLUMN :: string
  PARTITION_YEAR :: string
  PARTITION_MONTH :: string
  PARTITION_DAY :: string

text \<open>
  The storage configuration maps a logical key to its options (a dict of strings) and has
  a serialization format. The engine client gives \<^verbatim>\<open>conn.conf.get\<close> (\<open>None\<close>: the key is
  not set, and the call raises), \<^verbatim>\<open>read\<close> and \<^verbatim>\<open>read_table\<close>.
\<close>

record db_config =
  format :: string
  get_options :: "string \<Rightarrow> error + (string \<times> string) list"

record spark_client =
  conf :: "string \<Rightarrow> string option"
  read :: "string \<Rightarrow> (string \<times> string) list \<Rightarrow> error + dataframe"
  read_table :: "string \<Rightarrow> error + dataframe"

record environment =
  S3Config :: db_config
  FEATURE_STORE_HISTORICAL_DATABASE :: "string option"
  DEFAULT_NUM_PARTITIONS :: int

record feature_set =
  name :: string
  entity :: string

text \<open>The calls an operation makes on the engine client and the storage configuration.\<close>

datatype call =
    ConfGet string
  | GetOptions string
  | Read string "(string \<times> string) list"
  | ReadTable string

text \<open>
  A hook is the schema compatibility hook the writer builds from the client, a table name
  and the database, or one the caller supplied.
\<close>

datatype hook =
    SparkTableSchemaCompatibilityHook spark_client string "string option"
  | SuppliedHook nat

subsection \<open>The writer\<close>

record writer =
  debug_mode :: bool
  pre_hooks :: "hook list"
  db_config :: db_config
  check_schema :: "hook option"
  database :: "string option"
  num_partitions :: int
  validation_threshold :: number

text \<open>
  The threshold is a Python \<^verbatim>\<open>float\<close>, or an \<^verbatim>\<open>int\<close> (the class documentation
  suggests \<^verbatim>\<open>validation_threshold = 0\<close>). The default \<^verbatim>\<open>0.01\<close> is the float
  \<^verbatim>\<open>0x1.47ae147ae147bp-7\<close>, that is \<open>5764607523034235 * 2 ^ -59\<close>.
\<close>

definition DEFAULT_VALIDATION_THRESHOLD :: number where
  "DEFAULT_VALIDATION_THRESHOLD = PyFloat (Finite 5764607523034235 (- 59))"

definition PARTITION_BY :: "columns \<Rightarrow> string list" where
  "PARTITION_BY cols = [PARTITION_YEAR cols, PARTITION_MONTH cols, PARTITION_DAY cols]"

text \<open>
  \<^verbatim>\<open>__init__\<close>. Python's \<^verbatim>\<open>x or y\<close> takes \<^verbatim>\<open>y\<close> when \<^verbatim>\<open>x\<close> is falsy: \<^verbatim>\<open>None\<close>, the empty
  string, the number zero. The base class constructor stores the debug flag and starts
  with no hooks.
\<close>

definition HistoricalFeatureStoreWriter ::
  "environment \<Rightarrow> db_config option \<Rightarrow> string option \<Rightarrow> int option \<Rightarrow> number \<Rightarrow> bool \<Rightarrow> hook option
     \<Rightarrow> writer" where
  "HistoricalFeatureStoreWriter env db_config_arg database_arg num_partitions_arg
       validation_threshold_arg debug_mode_arg check_schema_arg =
     \<lparr>debug_mode = debug_mode_arg,
      pre_hooks = [],
      db_config = (case db_config_arg of None \<Rightarrow> S3Config env | Some c \<Rightarrow> c),
      check_schema = check_schema_arg,
      database =
        (case database_arg of
           None \<Rightarrow> FEATURE_STORE_HISTORICAL_DATABASE env
         | Some d \<Rightarrow> if d = [] then FEATURE_STORE_HISTORICAL_DATABASE env else Some d),
      num_partitions =
        (case num_partitions_arg of
           None \<Rightarrow> DEFAULT_NUM_PARTITIONS env
         | Some n \<Rightarrow> if n = 0 then DEFAULT_NUM_PARTITIONS env else n),
      validation_threshold = validation_threshold_arg\<rparr>"

text \<open>
  Modelled from the spec: \<^verbatim>\<open>add_pre_hook\<close> of the writer base class, which is not part of
  the file. It registers the hook to run before the write executes.
\<close>

definition add_pre_hook :: "writer \<Rightarrow> hook \<Rightarrow> writer" where
  "add_pre_hook self h = self\<lparr>pre_hooks := pre_hooks self @ [h]\<rparr>"

text \<open>\<^verbatim>\<open>_create_partitions\<close>: three \<^verbatim>\<open>withColumn\<close> calls, then the repartition.\<close>

definition create_partitions :: "columns \<Rightarrow> writer \<Rightarrow> dataframe \<Rightarrow> error + dataframe" where
  "create_partitions cols self dataframe =
     (case getitem dataframe (TIMESTAMP_COLUMN cols) of
        Inl e \<Rightarrow> Inl e
      | Inr ts1 \<Rightarrow>
     (case withColumn dataframe (PARTITION_YEAR cols) (year ts1) of
        Inl e \<Rightarrow> Inl e
      | Inr dataframe1 \<Rightarrow>
     (case getitem dataframe1 (TIMESTAMP_COLUMN cols) of
        Inl e \<Rightarrow> Inl e
      | Inr ts2 \<Rightarrow>
     (case withColumn dataframe1 (PARTITION_MONTH cols) (month ts2) of
        Inl e \<Rightarrow> Inl e
      | Inr dataframe2 \<Rightarrow>
     (case getitem dataframe2 (TIMESTAMP_COLUMN cols) of
        Inl e \<Rightarrow> Inl e
      | Inr ts3 \<Rightarrow>
     (case withColumn dataframe2 (PARTITION_DAY cols) (dayofmonth ts3) of
        Inl e \<Rightarrow> Inl e
      | Inr dataframe3 \<Rightarrow>
          repartition_df dataframe3 (PARTITION_BY cols) (num_partitions self)))))))"

text \<open>The write plan \<^verbatim>\<open>load\<close> returns: a tuple of six, in this order.\<close>

record write_plan =
  plan_dataframe :: dataframe
  plan_db_config :: db_config
  plan_options :: "(string \<times> string option) list"
  plan_database :: "string option"
  plan_table_name :: string
  plan_partition_by :: "string list"

definition overwrite_mode_key :: string where
  "overwrite_mode_key = ''spark.sql.sources.partitionOverwriteMode''"

definition overwrite_mode_message :: "string \<Rightarrow> string" where
  "overwrite_mode_message partition_overwrite_mode =
     ''m=load_incremental, '' @
     ''spark.sql.sources.partitionOverwriteMode='' @ partition_overwrite_mode @ '', '' @
     ''msg=partitionOverwriteMode '' @
     ''have to be configured to '' @ [CHR 0x27] @ ''dynamic'' @ [CHR 0x27]"

text \<open>
  \<^verbatim>\<open>load\<close>, in the order of the source: the lazily built schema hook and its
  registration, the partition columns, the overwrite-mode guard, the storage options and
  the returned tuple. The result is what the call returns or raises, the writer after the
  call (an exception leaves the mutations made before it) and the calls made on the
  collaborators.
\<close>

definition register_check_schema :: "writer \<Rightarrow> feature_set \<Rightarrow> spark_client \<Rightarrow> writer" where
  "register_check_schema self feature_set spark_client =
     (let self1 =
            (if check_schema self = None
             then self\<lparr>check_schema :=
                    Some (SparkTableSchemaCompatibilityHook spark_client (name feature_set)
                            (database self))\<rparr>
             else self)
      in case check_schema self1 of
           Some h \<Rightarrow> add_pre_hook self1 h
         | None \<Rightarrow> self1)"

definition check_overwrite_mode :: "writer \<Rightarrow> spark_client \<Rightarrow> error option \<times> call list" where
  "check_overwrite_mode self spark_client =
     (if \<not> debug_mode self
      then (case conf spark_client overwrite_mode_key of
              None \<Rightarrow>
                (Some (NoSuchElementException overwrite_mode_key), [ConfGet overwrite_mode_key])
            | Some v \<Rightarrow>
                let partition_overwrite_mode = lower v
                in if partition_overwrite_mode \<noteq> ''dynamic''
                   then (Some (RuntimeError (overwrite_mode_message partition_overwrite_mode)),
                         [ConfGet overwrite_mode_key])
                   else (None, [ConfGet overwrite_mode_key]))
      else (None, []))"

definition load ::
  "columns \<Rightarrow> writer \<Rightarrow> feature_set \<Rightarrow> dataframe \<Rightarrow> spark_client
     \<Rightarrow> (error + write_plan) \<times> writer \<times> call list" where
  "load cols self0 feature_set dataframe0 spark_client =
     (let self = register_check_schema self0 feature_set spark_client
      in case create_partitions cols self dataframe0 of
           Inl e \<Rightarrow> (Inl e, self, [])
         | Inr dataframe \<Rightarrow>
             (case check_overwrite_mode self spark_client of
                (Some e, calls) \<Rightarrow> (Inl e, self, calls)
              | (None, calls) \<Rightarrow>
                  let s3_key = os_path_join ''historical'' [entity feature_set, name feature_set]
                  in case get_options (db_config self) s3_key of
                       Inl e \<Rightarrow> (Inl e, self, calls @ [GetOptions s3_key])
                     | Inr opts \<Rightarrow>
                         (Inr \<lparr>plan_dataframe = dataframe,
                               plan_db_config = db_config self,
                               plan_options = [(''path'', map_of opts ''path'')],
                               plan_database = database self,
                               plan_table_name = name feature_set,
                               plan_partition_by = PARTITION_BY cols\<rparr>,
                          self,
                          calls @ [GetOptions s3_key])))"

text \<open>
  \<^verbatim>\<open>_assert_validation_count\<close>. The \<^verbatim>\<open>assert\<close> statement is taken as enabled (the
  interpreter does not run with \<^verbatim>\<open>-O\<close>).
\<close>

definition validation_message :: "string \<Rightarrow> int \<Rightarrow> int \<Rightarrow> string" where
  "validation_message table_name written_count dataframe_count =
     ''Data written to the Historical Feature Store and read back '' @
     ''from '' @ table_name @ '' has a different count than the feature set dataframe. '' @
     [CHR 0x0A] @ ''Number of rows in '' @ table_name @ '': '' @ str_int written_count @ ''.'' @
     [CHR 0x0A] @ ''Number of rows in the dataframe: '' @ str_int dataframe_count @ ''.''"

definition assert_validation_count :: "writer \<Rightarrow> string \<Rightarrow> int \<Rightarrow> int \<Rightarrow> error + unit" where
  "assert_validation_count self table_name written_count dataframe_count =
     (case py_sub (PyInt 1) (validation_threshold self) of
        Inl e \<Rightarrow> Inl e
      | Inr a \<Rightarrow>
     (case py_mul a (PyInt written_count) of
        Inl e \<Rightarrow> Inl e
      | Inr lower_bound \<Rightarrow>
     (case py_add (PyInt 1) (validation_threshold self) of
        Inl e \<Rightarrow> Inl e
      | Inr b \<Rightarrow>
     (case py_mul b (PyInt written_count) of
        Inl e \<Rightarrow> Inl e
      | Inr upper_bound \<Rightarrow>
          let validation =
                (num_le_int lower_bound dataframe_count \<and> int_le_num dataframe_count upper_bound)
          in if validation then Inr ()
             else Inl (AssertionError
                         (validation_message table_name written_count dataframe_count))))))"

text \<open>
  \<^verbatim>\<open>validate\<close>: what the call returns or raises, and the calls made on the collaborators.
  Its two local values are \<open>table_name\<close>, the identity read back, and \<open>written_count\<close>,
  the number of rows read back from it.
\<close>

definition table_name :: "writer \<Rightarrow> feature_set \<Rightarrow> string" where
  "table_name self feature_set =
     (if \<not> debug_mode self
      then str_opt (database self) @ ''.'' @ name feature_set
      else ''historical_feature_store__'' @ name feature_set)"

definition written_count :: "writer \<Rightarrow> string \<Rightarrow> spark_client \<Rightarrow> (error + int) \<times> call list" where
  "written_count self tn spark_client =
     (if \<not> debug_mode self
      then (case get_options (db_config self) tn of
              Inl e \<Rightarrow> (Inl e, [GetOptions tn])
            | Inr opts \<Rightarrow>
                (case read spark_client (format (db_config self)) opts of
                   Inl e \<Rightarrow> (Inl e, [GetOptions tn, Read (format (db_config self)) opts])
                 | Inr written \<Rightarrow>
                     (Inr (count written), [GetOptions tn, Read (format (db_config self)) opts])))
      else (case read_table spark_client tn of
              Inl e \<Rightarrow> (Inl e, [ReadTable tn])
            | Inr written \<Rightarrow> (Inr (count written), [ReadTable tn])))"

definition validate ::
  "writer \<Rightarrow> feature_set \<Rightarrow> dataframe \<Rightarrow> spark_client \<Rightarrow> (error + unit) \<times> call list" where
  "validate self feature_set dataframe spark_client =
     (let tn = table_name self feature_set
      in case written_count self tn spark_client of
           (Inl e, calls) \<Rightarrow> (Inl e, calls)
         | (Inr w, calls) \<Rightarrow>
             let dataframe_count = count dataframe
             in (assert_validation_count self tn w dataframe_count, calls))"

subsection \<open>Vocabulary of the statements\<close>

text \<open>
  The three cells the partition step appends to a row: the calendar fields of the cell at
  the event-time column's position.
\<close>

definition partition_cells :: "nat \<Rightarrow> cell list \<Rightarrow> cell list" where
  "partition_cells i r =
     [extract_field ts_year (eval_column (ColRef i) r),
      extract_field ts_month (eval_column (ColRef i) r),
      extract_field ts_day (eval_column (ColRef i) r)]"

text \<open>
  The input dataframe with the three partition columns appended and the partitioning
  the writer asks for.
\<close>

definition with_partition_columns :: "columns \<Rightarrow> nat \<Rightarrow> int \<Rightarrow> dataframe \<Rightarrow> dataframe" where
  "with_partition_columns cols i n df =
     df\<lparr>schema := schema df @ [(PARTITION_YEAR cols, IntegerType),
                               (PARTITION_MONTH cols, IntegerType),
                               (PARTITION_DAY cols, IntegerType)],
        rows := map (\<lambda>r. r @ partition_cells i r) (rows df),
        partitioning := Some (PARTITION_BY cols, n)\<rparr>"

subsection \<open>A concrete writer, feature set and engine\<close>

text \<open>
  The inputs the statements below are evaluated on: the column names of the library, a
  session with the default case-insensitive name resolution, a storage configuration in
  the manner of the S3 one, and a client whose overwrite mode and stored table are given.
\<close>

definition example_columns :: columns where
  "example_columns =
     \<lparr>TIMESTAMP_COLUMN = ''timestamp'', PARTITION_YEAR = ''year'',
      PARTITION_MONTH = ''month'', PARTITION_DAY = ''day''\<rparr>"

definition example_dataframe :: dataframe where
  "example_dataframe =
     \<lparr>case_sensitive = False,
      schema = [(''id'', IntegerType), (''timestamp'', TimestampType), (''rent'', IntegerType)],
      rows = [[IntV 1, TsV 2020 4 17 0, IntV 900],
              [IntV 2, TsV 2021 12 31 86399000000, IntV 1200]],
      partitioning = None\<rparr>"

definition example_db_config :: db_config where
  "example_db_config =
     \<lparr>format = ''parquet'',
      get_options = (\<lambda>key. Inr [(''mode'', ''overwrite''), (''format'', ''parquet''),
                                (''path'', ''s3a://bucket/'' @ key)])\<rparr>"

definition example_client :: "string \<Rightarrow> dataframe \<Rightarrow> spark_client" where
  "example_client mode stored =
     \<lparr>conf = (\<lambda>key. if key = ''spark.sql.sources.partitionOverwriteMode'' then Some mode
                    else None),
      read = (\<lambda>fmt opts. Inr stored),
      read_table = (\<lambda>tn. Inr stored)\<rparr>"

definition example_environment :: environment where
  "example_environment =
     \<lparr>S3Config = example_db_config,
      FEATURE_STORE_HISTORICAL_DATABASE = Some ''feature_store'',
      DEFAULT_NUM_PARTITIONS = 200\<rparr>"

definition example_feature_set :: feature_set where
  "example_feature_set = \<lparr>name = ''house_listings'', entity = ''house''\<rparr>"

definition example_writer :: "bool \<Rightarrow> writer" where
  "example_writer debug =
     HistoricalFeatureStoreWriter example_environment None None None
       DEFAULT_VALIDATION_THRESHOLD debug None"

definition example_stored :: "nat \<Rightarrow> dataframe" where
  "example_stored n =
     \<lparr>case_sensitive = False, schema = [(''id'', IntegerType)],
      rows = replicate n [IntV 0], partitioning = None\<rparr>"

definition example_dataframe_year :: dataframe where
  "example_dataframe_year =
     \<lparr>case_sensitive = False,
      schema = [(''id'', IntegerType), (''timestamp'', TimestampType), (''year'', IntegerType)],
      rows = [[IntV 1, TsV 2020 4 17 0, IntV 1999]],
      partitioning = None\<rparr>"

definition example_feature_set2 :: feature_set where
  "example_feature_set2 = \<lparr>name = ''user_orders'', entity = ''user''\<rparr>"

section \<open>Auxiliary lemmas\<close>

subsection \<open>Strings\<close>

lemma starts_with_append: "starts_with (n @ s) n"
  by (induction n) auto

lemma contains_here: "contains (n @ s) n"
proof (cases "n @ s")
  case Nil
  then show ?thesis by simp
next
  case (Cons a l)
  have "starts_with (n @ s) n" by (rule starts_with_append)
  then show ?thesis using Cons by simp
qed

lemma contains_later: "contains s n \<Longrightarrow> contains (p @ s) n"
  by (induction p) auto

lemma contains_mid: "contains (p @ n @ s) n"
  by (rule contains_later) (rule contains_here)

subsection \<open>Python numbers\<close>

declare float_add.simps(1) [simp del] float_mul.simps(1) [simp del]

lemma bit_length_le: "n < 2 ^ k \<Longrightarrow> bit_length n \<le> k"
proof (induction n arbitrary: k rule: bit_length.induct)
  case (1 n)
  show ?case
  proof (cases "n = 0")
    case True
    then show ?thesis by (simp add: bit_length.simps)
  next
    case False
    with "1.prems" obtain j where k: "k = Suc j"
      by (cases k) auto
    from "1.prems" k have "n div 2 < 2 ^ j" by auto
    with "1.IH"[OF False] have "bit_length (n div 2) \<le> j" by blast
    with False k show ?thesis by (simp add: bit_length.simps[of n])
  qed
qed

lemma round64_exact:
  assumes "\<bar>m\<bar> < 2 ^ 53" and "- 1074 \<le> e" and "e \<le> 971"
  shows "round64 m e = Finite m e"
proof -
  have "nat \<bar>m\<bar> < 2 ^ 53"
    using assms(1) by (simp add: nat_less_iff)
  then have b: "bit_length (nat \<bar>m\<bar>) \<le> 53"
    by (rule bit_length_le)
  then have s: "max (int (bit_length (nat \<bar>m\<bar>)) - 53) (- 1074 - e) \<le> 0"
    using assms(2) by simp
  have o: "\<not> int (bit_length (nat \<bar>m\<bar>)) + e > 1024"
    using b assms(3) by simp
  have v: "sgn m * int (nat \<bar>m\<bar>) = m"
    by (simp add: mult_sgn_abs)
  show ?thesis
    unfolding round64_def Let_def using s o v by simp
qed

lemma float_of_int_small: "\<bar>i\<bar> < 2 ^ 53 \<Longrightarrow> float_of_int i = Inr (Finite i 0)"
  by (simp add: float_of_int_def round64_exact)

lemma float_of_int_1 [simp]: "float_of_int 1 = Inr (Finite 1 0)"
  by (rule float_of_int_small) simp

lemma float_bounds_small:
  assumes "\<bar>w\<bar> < 2 ^ 53"
  shows "py_sub (PyInt 1) (PyFloat x) = Inr (PyFloat (float_sub (Finite 1 0) x))"
    and "py_add (PyInt 1) (PyFloat x) = Inr (PyFloat (float_add (Finite 1 0) x))"
    and "py_mul (PyFloat y) (PyInt w) = Inr (PyFloat (float_mul y (Finite w 0)))"
  using assms by (simp_all add: float_op_def float_of_int_small)

lemmas py_ops_del = py_sub.simps py_add.simps py_mul.simps

lemma assert_validation_count_float:
  assumes "validation_threshold self = PyFloat x" and "\<bar>w\<bar> < 2 ^ 53"
  shows "assert_validation_count self tn w d =
           (if float_le_int (float_mul (float_sub (Finite 1 0) x) (Finite w 0)) d
               \<and> int_le_float d (float_mul (float_add (Finite 1 0) x) (Finite w 0))
            then Inr ()
            else Inl (AssertionError (validation_message tn w d)))"
  by (simp add: assert_validation_count_def assms(1) float_bounds_small[OF assms(2)] Let_def
      del: py_ops_del)

lemma assert_validation_count_int:
  assumes "validation_threshold self = PyInt k"
  shows "assert_validation_count self tn w d =
           (if (1 - k) * w \<le> d \<and> d \<le> (1 + k) * w
            then Inr ()
            else Inl (AssertionError (validation_message tn w d)))"
  by (simp add: assert_validation_count_def assms Let_def)

lemma float_one_minus_zero: "float_sub (Finite 1 0) (Finite 0 0) = Finite 1 0"
  by (simp add: float_sub_def float_add.simps Let_def round64_exact)

lemma float_one_plus_zero: "float_add (Finite 1 0) (Finite 0 0) = Finite 1 0"
  by (simp add: float_add.simps Let_def round64_exact)

lemma float_one_times: "\<bar>w\<bar> < 2 ^ 53 \<Longrightarrow> float_mul (Finite 1 0) (Finite w 0) = Finite w 0"
  by (simp add: float_mul.simps round64_exact)

lemma assert_validation_count_zero_float:
  assumes "validation_threshold self = PyFloat (Finite 0 0)" and "\<bar>w\<bar> < 2 ^ 53"
  shows "(assert_validation_count self tn w d = Inr ()) = (d = w)"
  unfolding assert_validation_count_float[OF assms]
  by (auto simp: float_one_minus_zero float_one_plus_zero float_one_times[OF assms(2)])

lemma assert_validation_count_zero_int:
  assumes "validation_threshold self = PyInt 0"
  shows "(assert_validation_count self tn w d = Inr ()) = (d = w)"
  unfolding assert_validation_count_int[OF assms] by auto

lemmas round64_eval = round64_def round_half_even_def bit_length.simps Let_def

lemma float_default_threshold:
  "float_sub (Finite 1 0) (Finite 5764607523034235 (- 59)) = Finite 8917127262193582 (- 53)"
  "float_add (Finite 1 0) (Finite 5764607523034235 (- 59)) = Finite 4548635623644201 (- 52)"
  by (simp_all add: float_sub_def float_add.simps Let_def) (simp_all add: round64_eval)

lemma float_default_bounds:
  "float_mul (Finite 8917127262193582 (- 53)) (Finite 100000 0) = Finite 6803228196864000 (- 36)"
  "float_mul (Finite 4548635623644201 (- 52)) (Finite 100000 0) = Finite 6940667150336000 (- 36)"
  "float_mul (Finite 8917127262193582 (- 53)) (Finite 100 0) = Finite 6966505673588736 (- 46)"
  "float_mul (Finite 4548635623644201 (- 52)) (Finite 100 0) = Finite 7107243161944064 (- 46)"
  by (simp_all add: float_mul.simps) (simp_all add: round64_eval)

lemma float_threshold_013:
  "float_sub (Finite 1 0) (Finite 4683743612465316 (- 55)) = Finite 7836263351624663 (- 53)"
  "float_add (Finite 1 0) (Finite 4683743612465316 (- 55)) = Finite 5089067578928660 (- 52)"
  "float_mul (Finite 7836263351624663 (- 53)) (Finite 100 0) = Finite 6122080743456768 (- 46)"
  "float_mul (Finite 5089067578928660 (- 52)) (Finite 100 0) = Finite 7951668092076031 (- 46)"
  by (simp_all add: float_sub_def float_add.simps float_mul.simps Let_def)
     (simp_all add: round64_eval)

lemma float_of_int_above_2_53:
  "float_of_int 9007199254740993 = Inr (Finite 4503599627370496 1)"
  by (simp add: float_of_int_def round64_eval)

lemma float_one_times_2_53:
  "float_mul (Finite 1 0) (Finite 4503599627370496 1) = Finite 4503599627370496 1"
  by (simp add: float_mul.simps) (simp add: round64_eval)

subsection \<open>The dataframe engine and the partition step\<close>

lemma same_name_update [simp]:
  "same_name (df\<lparr>schema := s\<rparr>) = same_name df"
  "same_name (df\<lparr>rows := r\<rparr>) = same_name df"
  "same_name (df\<lparr>partitioning := p\<rparr>) = same_name df"
  by (simp_all add: same_name_def fun_eq_iff)

lemma same_name_sym: "same_name df a b \<Longrightarrow> same_name df b a"
  by (auto simp: same_name_def split: if_splits)

lemma same_name_trans: "same_name df a b \<Longrightarrow> same_name df b c \<Longrightarrow> same_name df a c"
  by (auto simp: same_name_def split: if_splits)

lemma getitem_ColRef:
  assumes "getitem df n = Inr (ColRef i)"
  shows "i < length (schema df) \<and> same_name df (fst (schema df ! i)) n"
proof -
  let ?P = "\<lambda>i. same_name df (fst (schema df ! i)) n"
  from assms have "filter ?P [0 ..< length (schema df)] = [i]"
    by (auto simp: getitem_def split: list.splits)
  then have "i \<in> set (filter ?P [0 ..< length (schema df)])" by simp
  then show ?thesis by simp
qed

lemma getitem_has_column: "getitem df n = Inr c \<Longrightarrow> has_column df n"
proof -
  assume a: "getitem df n = Inr c"
  let ?P = "\<lambda>i. same_name df (fst (schema df ! i)) n"
  from a have "filter ?P [0 ..< length (schema df)] \<noteq> []"
    by (auto simp: getitem_def split: list.splits)
  then obtain i where "i \<in> set (filter ?P [0 ..< length (schema df)])"
    by (meson last_in_set)
  then have "i < length (schema df)" "same_name df (fst (schema df ! i)) n" by auto
  then show ?thesis
    unfolding has_column_def list_ex_iff using nth_mem by blast
qed

lemma getitem_append:
  assumes "getitem df n = Inr c" and "\<not> same_name df m n"
  shows "getitem (df\<lparr>schema := schema df @ [(m, t)], rows := R\<rparr>) n = Inr c"
proof -
  let ?P = "\<lambda>i. same_name df (fst (schema df ! i)) n"
  let ?Q = "\<lambda>i. same_name df (fst ((schema df @ [(m, t)]) ! i)) n"
  have "filter ?Q [0 ..< length (schema df)] = filter ?P [0 ..< length (schema df)]"
    by (rule filter_cong) (auto simp: nth_append)
  moreover have "\<not> ?Q (length (schema df))" using assms(2) by simp
  ultimately have "filter ?Q [0 ..< length (schema df @ [(m, t)])] = filter ?P [0 ..< length (schema df)]"
    by simp
  then show ?thesis using assms(1) by (simp add: getitem_def)
qed

lemma same_name_refl [simp]: "same_name df a a"
  by (simp add: same_name_def)

lemma getitem_append_new:
  assumes "\<not> has_column df n"
  shows "getitem (df\<lparr>schema := schema df @ [(n, t)], rows := R\<rparr>) n =
           Inr (ColRef (length (schema df)))"
proof -
  let ?Q = "\<lambda>i. same_name df (fst ((schema df @ [(n, t)]) ! i)) n"
  have "\<not> ?Q i" if "i < length (schema df)" for i
  proof
    assume "?Q i"
    with that have "same_name df (fst (schema df ! i)) n" by (simp add: nth_append)
    with that have "has_column df n"
      unfolding has_column_def list_ex_iff using nth_mem by blast
    with assms show False by simp
  qed
  then have "filter ?Q [0 ..< length (schema df)] = []"
    by (simp add: filter_empty_conv)
  then have "filter ?Q [0 ..< length (schema df @ [(n, t)])] = [length (schema df)]"
    by simp
  then show ?thesis by (simp add: getitem_def)
qed

lemma has_column_append:
  "has_column (df\<lparr>schema := schema df @ [(m, t)], rows := R\<rparr>) n
     = (has_column df n \<or> same_name df m n)"
  by (auto simp: has_column_def)

lemma withColumn_append:
  assumes "column_type df c = Inr t" and "\<not> has_column df n"
  shows "withColumn df n c =
           Inr (df\<lparr>schema := schema df @ [(n, t)], rows := map (\<lambda>r. r @ [eval_column c r]) (rows df)\<rparr>)"
  using assms by (simp add: withColumn_def)

lemma eval_ColRef_append_inside:
  "i < length r \<Longrightarrow> eval_column (ColRef i) (r @ xs) = eval_column (ColRef i) r"
  by (simp add: nth_append)

lemma eval_ColRef_append_outside:
  "\<not> i < length r \<Longrightarrow> list_all (\<lambda>x. x = Null) xs \<Longrightarrow> eval_column (ColRef i) (r @ xs) = Null"
  by (simp add: nth_append list_all_length)

lemma extract_field_Null [simp]: "extract_field f Null = Null"
  by (simp add: extract_field_def)

lemma extract_after_append1:
  "extract_field f (eval_column (ColRef i) (r @ [extract_field g (eval_column (ColRef i) r)]))
     = extract_field f (eval_column (ColRef i) r)"
proof (cases "i < length r")
  case True
  then show ?thesis by (simp only: eval_ColRef_append_inside)
next
  case False
  then have "eval_column (ColRef i) r = Null" by simp
  then show ?thesis using False by (simp add: eval_ColRef_append_outside del: eval_column.simps)
qed

lemma extract_after_append2:
  "extract_field f (eval_column (ColRef i)
       (r @ [extract_field g (eval_column (ColRef i) r), extract_field h (eval_column (ColRef i) r)]))
     = extract_field f (eval_column (ColRef i) r)"
proof (cases "i < length r")
  case True
  then show ?thesis by (simp only: eval_ColRef_append_inside)
next
  case False
  then have "eval_column (ColRef i) r = Null" by simp
  then show ?thesis using False by (simp add: eval_ColRef_append_outside del: eval_column.simps)
qed

lemma create_partitions_appends:
  assumes ts: "getitem df (TIMESTAMP_COLUMN cols) = Inr (ColRef i)"
    and ty: "snd (schema df ! i) = TimestampType"
    and ny: "\<not> has_column df (PARTITION_YEAR cols)"
    and nm: "\<not> has_column df (PARTITION_MONTH cols)"
    and nd: "\<not> has_column df (PARTITION_DAY cols)"
    and ym: "\<not> same_name df (PARTITION_YEAR cols) (PARTITION_MONTH cols)"
    and yd: "\<not> same_name df (PARTITION_YEAR cols) (PARTITION_DAY cols)"
    and md: "\<not> same_name df (PARTITION_MONTH cols) (PARTITION_DAY cols)"
  shows "create_partitions cols self df =
           Inr (df\<lparr>schema := schema df @ [(PARTITION_YEAR cols, IntegerType),
                                            (PARTITION_MONTH cols, IntegerType),
                                            (PARTITION_DAY cols, IntegerType)],
                    rows := map (\<lambda>r. r @ partition_cells i r) (rows df),
                    partitioning := Some (PARTITION_BY cols, num_partitions self)\<rparr>)"
proof -
  let ?TS = "TIMESTAMP_COLUMN cols"
  from getitem_ColRef[OF ts] have i: "i < length (schema df)"
    and si: "same_name df (fst (schema df ! i)) ?TS" by simp_all
  have hasTS: "has_column df ?TS" using ts by (rule getitem_has_column)
  have nts: "\<not> same_name df n ?TS" if "\<not> has_column df n" for n
  proof
    assume "same_name df n ?TS"
    then have "same_name df (fst (schema df ! i)) n"
      using si same_name_sym same_name_trans by blast
    then have "has_column df n"
      unfolding has_column_def list_ex_iff using i nth_mem by blast
    with that show False by simp
  qed
  define df1 where "df1 = df\<lparr>schema := schema df @ [(PARTITION_YEAR cols, IntegerType)],
      rows := map (\<lambda>r. r @ [eval_column (Year (ColRef i)) r]) (rows df)\<rparr>"
  define df2 where "df2 = df1\<lparr>schema := schema df1 @ [(PARTITION_MONTH cols, IntegerType)],
      rows := map (\<lambda>r. r @ [eval_column (Month (ColRef i)) r]) (rows df1)\<rparr>"
  define df3 where "df3 = df2\<lparr>schema := schema df2 @ [(PARTITION_DAY cols, IntegerType)],
      rows := map (\<lambda>r. r @ [eval_column (DayOfMonth (ColRef i)) r]) (rows df2)\<rparr>"
  have w1: "withColumn df (PARTITION_YEAR cols) (year (ColRef i)) = Inr df1"
    unfolding df1_def year_def
    by (rule withColumn_append) (simp_all add: i ty ny)
  have g1: "getitem df1 ?TS = Inr (ColRef i)"
    unfolding df1_def by (rule getitem_append[OF ts nts[OF ny]])
  have i1: "i < length (schema df1)" "snd (schema df1 ! i) = TimestampType"
    using i ty by (simp_all add: df1_def nth_append)
  have h1: "\<not> has_column df1 (PARTITION_MONTH cols)" "\<not> has_column df1 (PARTITION_DAY cols)"
    using nm nd ym yd by (simp_all add: df1_def has_column_append)
  have s1: "same_name df1 = same_name df" by (simp add: df1_def)
  have w2: "withColumn df1 (PARTITION_MONTH cols) (month (ColRef i)) = Inr df2"
    unfolding df2_def month_def
    by (rule withColumn_append) (simp_all add: i1 h1)
  have n1: "\<not> same_name df1 (PARTITION_MONTH cols) ?TS"
    using nts[OF nm] by (simp add: s1)
  have g2: "getitem df2 ?TS = Inr (ColRef i)"
    unfolding df2_def by (rule getitem_append[OF g1 n1])
  have i2: "i < length (schema df2)" "snd (schema df2 ! i) = TimestampType"
    using i1 by (simp_all add: df2_def nth_append)
  have h2: "\<not> has_column df2 (PARTITION_DAY cols)"
    using h1 md by (simp add: df2_def has_column_append s1)
  have w3: "withColumn df2 (PARTITION_DAY cols) (dayofmonth (ColRef i)) = Inr df3"
    unfolding df3_def dayofmonth_def
    by (rule withColumn_append) (simp_all add: i2 h2)
  have s2: "same_name df2 = same_name df" by (simp add: df2_def s1)
  have y1: "getitem df1 (PARTITION_YEAR cols) = Inr (ColRef (length (schema df)))"
    unfolding df1_def by (rule getitem_append_new[OF ny])
  have y2: "getitem df2 (PARTITION_YEAR cols) = Inr (ColRef (length (schema df)))"
    unfolding df2_def using ym by (intro getitem_append[OF y1]) (auto simp: s1 dest: same_name_sym)
  have y3: "getitem df3 (PARTITION_YEAR cols) = Inr (ColRef (length (schema df)))"
    unfolding df3_def using yd by (intro getitem_append[OF y2]) (auto simp: s2 dest: same_name_sym)
  have m2: "getitem df2 (PARTITION_MONTH cols) = Inr (ColRef (length (schema df1)))"
    unfolding df2_def by (rule getitem_append_new[OF h1(1)])
  have m3: "getitem df3 (PARTITION_MONTH cols) = Inr (ColRef (length (schema df1)))"
    unfolding df3_def using md by (intro getitem_append[OF m2]) (auto simp: s2 dest: same_name_sym)
  have d3: "getitem df3 (PARTITION_DAY cols) = Inr (ColRef (length (schema df2)))"
    unfolding df3_def by (rule getitem_append_new[OF h2])
  have r: "resolve_all df3 (PARTITION_BY cols) = None"
    by (simp add: PARTITION_BY_def y3 m3 d3)
  have "create_partitions cols self df =
          repartition_df df3 (PARTITION_BY cols) (num_partitions self)"
    by (simp add: create_partitions_def ts w1 g1 w2 g2 w3)
  moreover have "repartition_df df3 (PARTITION_BY cols) (num_partitions self) = Inr (
      df\<lparr>schema := schema df @ [(PARTITION_YEAR cols, IntegerType),
                                (PARTITION_MONTH cols, IntegerType),
                                (PARTITION_DAY cols, IntegerType)],
         rows := map (\<lambda>r. r @ partition_cells i r) (rows df),
         partitioning := Some (PARTITION_BY cols, num_partitions self)\<rparr>)"
    by (simp add: repartition_df_def r) (simp add: df3_def df2_def df1_def partition_cells_def
        extract_after_append1 extract_after_append2 del: eval_column.simps(1))
  ultimately show ?thesis by simp
qed

subsection \<open>The steps of load\<close>

lemma create_partitions_num_partitions:
  "num_partitions s' = num_partitions s \<Longrightarrow> create_partitions cols s' df = create_partitions cols s df"
  unfolding create_partitions_def by (simp split: sum.splits)

lemma register_check_schema_fields [simp]:
  "debug_mode (register_check_schema self fs sc) = debug_mode self"
  "db_config (register_check_schema self fs sc) = db_config self"
  "database (register_check_schema self fs sc) = database self"
  "num_partitions (register_check_schema self fs sc) = num_partitions self"
  "validation_threshold (register_check_schema self fs sc) = validation_threshold self"
  by (cases "check_schema self"; simp add: register_check_schema_def add_pre_hook_def)+

lemma register_check_schema_hook:
  "check_schema (register_check_schema self fs sc) =
     Some (case check_schema self of
             None \<Rightarrow> SparkTableSchemaCompatibilityHook sc (name fs) (database self)
           | Some h \<Rightarrow> h)"
  "pre_hooks (register_check_schema self fs sc) =
     pre_hooks self @
     [case check_schema self of
        None \<Rightarrow> SparkTableSchemaCompatibilityHook sc (name fs) (database self)
      | Some h \<Rightarrow> h]"
  by (cases "check_schema self"; simp add: register_check_schema_def add_pre_hook_def)+

lemma create_partitions_register [simp]:
  "create_partitions cols (register_check_schema self fs sc) df = create_partitions cols self df"
  by (rule create_partitions_num_partitions) simp

lemma check_overwrite_mode_register [simp]:
  "check_overwrite_mode (register_check_schema self fs sc) sc' = check_overwrite_mode self sc'"
  by (simp add: check_overwrite_mode_def)

lemma check_overwrite_mode_debug:
  "debug_mode self \<Longrightarrow> check_overwrite_mode self sc = (None, [])"
  by (simp add: check_overwrite_mode_def)

lemma check_overwrite_mode_value:
  "\<not> debug_mode self \<Longrightarrow> conf sc overwrite_mode_key = Some v \<Longrightarrow>
     check_overwrite_mode self sc =
       (if lower v \<noteq> ''dynamic'' then Some (RuntimeError (overwrite_mode_message (lower v))) else None,
        [ConfGet overwrite_mode_key])"
  by (simp add: check_overwrite_mode_def Let_def)

lemma check_overwrite_mode_passes:
  "(fst (check_overwrite_mode self sc) = None) =
     (debug_mode self \<or> (\<exists>v. conf sc overwrite_mode_key = Some v \<and> lower v = ''dynamic''))"
  by (auto simp: check_overwrite_mode_def Let_def split: option.splits)

lemma check_overwrite_mode_calls:
  "snd (check_overwrite_mode self sc) = (if debug_mode self then [] else [ConfGet overwrite_mode_key])"
  by (auto simp: check_overwrite_mode_def Let_def split: option.splits)

lemma load_writer:
  "fst (snd (load cols self fs df sc)) = register_check_schema self fs sc"
  by (simp add: load_def Let_def split: sum.splits option.splits prod.splits)

lemma load_plan:
  assumes "fst (load cols self fs df sc) = Inr plan"
  shows "create_partitions cols self df = Inr (plan_dataframe plan)
       \<and> plan_db_config plan = db_config self
       \<and> (\<exists>opts. get_options (db_config self) (os_path_join ''historical'' [entity fs, name fs]) = Inr opts
              \<and> plan_options plan = [(''path'', map_of opts ''path'')])
       \<and> plan_database plan = database self
       \<and> plan_table_name plan = name fs
       \<and> plan_partition_by plan = PARTITION_BY cols
       \<and> fst (check_overwrite_mode self sc) = None"
  using assms
  by (auto simp: load_def Let_def split: sum.splits option.splits prod.splits)

lemma load_returns:
  assumes "create_partitions cols self df = Inr df1"
    and "fst (check_overwrite_mode self sc) = None"
    and "get_options (db_config self) (os_path_join ''historical'' [entity fs, name fs]) = Inr opts"
  shows "load cols self fs df sc =
           (Inr \<lparr>plan_dataframe = df1, plan_db_config = db_config self,
                 plan_options = [(''path'', map_of opts ''path'')],
                 plan_database = database self, plan_table_name = name fs,
                 plan_partition_by = PARTITION_BY cols\<rparr>,
            register_check_schema self fs sc,
            snd (check_overwrite_mode self sc) @
            [GetOptions (os_path_join ''historical'' [entity fs, name fs])])"
  using assms
  by (cases "check_overwrite_mode self sc") (simp add: load_def Let_def)

lemma load_guard_fails:
  assumes "create_partitions cols self df = Inr df1"
    and "check_overwrite_mode self sc = (Some e, calls)"
  shows "load cols self fs df sc = (Inl e, register_check_schema self fs sc, calls)"
  using assms by (simp add: load_def Let_def)

lemma load_calls:
  "snd (snd (load cols self fs df sc)) = []
   \<or> snd (snd (load cols self fs df sc)) = snd (check_overwrite_mode self sc)
   \<or> snd (snd (load cols self fs df sc)) =
        snd (check_overwrite_mode self sc) @ [GetOptions (os_path_join ''historical'' [entity fs, name fs])]"
  by (simp add: load_def Let_def split: sum.splits option.splits prod.splits)

subsection \<open>The concrete inputs\<close>

lemmas example_defs = example_columns_def example_dataframe_def example_db_config_def
  example_client_def example_environment_def example_feature_set_def example_writer_def
  HistoricalFeatureStoreWriter_def DEFAULT_VALIDATION_THRESHOLD_def

lemma example_getitem:
  "getitem example_dataframe (TIMESTAMP_COLUMN example_columns) = Inr (ColRef 1)"
  by (simp add: getitem_def example_dataframe_def example_columns_def same_name_def lower_def
      lower_char_def upt_rec)

lemma example_no_partition_columns:
  "\<not> has_column example_dataframe (PARTITION_YEAR example_columns)"
  "\<not> has_column example_dataframe (PARTITION_MONTH example_columns)"
  "\<not> has_column example_dataframe (PARTITION_DAY example_columns)"
  by (simp_all add: has_column_def example_dataframe_def example_columns_def same_name_def
      lower_def lower_char_def)

lemma example_distinct_names:
  "\<not> same_name example_dataframe (PARTITION_YEAR example_columns) (PARTITION_MONTH example_columns)"
  "\<not> same_name example_dataframe (PARTITION_YEAR example_columns) (PARTITION_DAY example_columns)"
  "\<not> same_name example_dataframe (PARTITION_MONTH example_columns) (PARTITION_DAY example_columns)"
  by (simp_all add: example_dataframe_def example_columns_def same_name_def lower_def lower_char_def)

lemma example_create_partitions:
  "create_partitions example_columns self example_dataframe =
     Inr \<lparr>case_sensitive = False,
          schema = [(''id'', IntegerType), (''timestamp'', TimestampType), (''rent'', IntegerType),
                    (''year'', IntegerType), (''month'', IntegerType), (''day'', IntegerType)],
          rows = [[IntV 1, TsV 2020 4 17 0, IntV 900, IntV 2020, IntV 4, IntV 17],
                  [IntV 2, TsV 2021 12 31 86399000000, IntV 1200, IntV 2021, IntV 12, IntV 31]],
          partitioning = Some ([''year'', ''month'', ''day''], num_partitions self)\<rparr>"
proof -
  have ty: "snd (schema example_dataframe ! 1) = TimestampType"
    by (simp add: example_dataframe_def)
  show ?thesis
    unfolding create_partitions_appends[OF example_getitem ty example_no_partition_columns
        example_distinct_names]
    by (simp add: example_dataframe_def example_columns_def partition_cells_def
        extract_field_def PARTITION_BY_def)
qed

lemma example_guard_dynamic:
  "fst (check_overwrite_mode (example_writer debug) (example_client ''DYNAMIC'' stored)) = None"
  by (simp add: check_overwrite_mode_def overwrite_mode_key_def example_client_def Let_def
      lower_def lower_char_def)

lemma load_create_partitions_error:
  "create_partitions cols self df = Inl e \<Longrightarrow>
     load cols self fs df sc = (Inl e, register_check_schema self fs sc, [])"
  by (simp add: load_def Let_def)

lemma load_result:
  "(fst (load cols self fs df sc), snd (snd (load cols self fs df sc))) =
     (case create_partitions cols self df of
        Inl e \<Rightarrow> (Inl e, [])
      | Inr d \<Rightarrow>
          (case check_overwrite_mode self sc of
             (Some e, calls) \<Rightarrow> (Inl e, calls)
           | (None, calls) \<Rightarrow>
               (case get_options (db_config self) (os_path_join ''historical'' [entity fs, name fs]) of
                  Inl e \<Rightarrow> (Inl e, calls @ [GetOptions (os_path_join ''historical'' [entity fs, name fs])])
                | Inr opts \<Rightarrow>
                    (Inr \<lparr>plan_dataframe = d, plan_db_config = db_config self,
                          plan_options = [(''path'', map_of opts ''path'')],
                          plan_database = database self, plan_table_name = name fs,
                          plan_partition_by = PARTITION_BY cols\<rparr>,
                     calls @ [GetOptions (os_path_join ''historical'' [entity fs, name fs])]))))"
  by (simp add: load_def Let_def split: sum.splits option.splits prod.splits)

lemma check_overwrite_mode_conf:
  "debug_mode self \<Longrightarrow> check_overwrite_mode self (sc\<lparr>conf := c\<rparr>) = check_overwrite_mode self sc"
  by (simp add: check_overwrite_mode_def)

lemma contains_overwrite_mode_message: "contains (overwrite_mode_message m) m"
proof -
  have "overwrite_mode_message m =
          (''m=load_incremental, spark.sql.sources.partitionOverwriteMode='') @ m @
          ('', msg=partitionOverwriteMode have to be configured to '' @ [CHR 0x27] @ ''dynamic'' @
           [CHR 0x27])"
    by (simp add: overwrite_mode_message_def)
  then show ?thesis by (simp only: contains_mid)
qed

lemma example_get_options:
  "get_options (db_config (example_writer debug))
     (os_path_join ''historical'' [entity example_feature_set, name example_feature_set]) =
   Inr [(''mode'', ''overwrite''), (''format'', ''parquet''),
        (''path'', ''s3a://bucket/historical/house/house_listings'')]"
  by (simp add: example_defs)

lemma example_guard_static:
  "check_overwrite_mode (example_writer False) (example_client ''STATIC'' stored) =
     (Some (RuntimeError (overwrite_mode_message ''static'')), [ConfGet overwrite_mode_key])"
  by (simp add: check_overwrite_mode_def overwrite_mode_key_def example_defs Let_def
      lower_def lower_char_def)

lemma example_load_fst:
  "fst (load example_columns (example_writer debug) example_feature_set example_dataframe
          (example_client ''DYNAMIC'' stored)) =
     Inr \<lparr>plan_dataframe =
            \<lparr>case_sensitive = False,
             schema = [(''id'', IntegerType), (''timestamp'', TimestampType),
                       (''rent'', IntegerType), (''year'', IntegerType),
                       (''month'', IntegerType), (''day'', IntegerType)],
             rows = [[IntV 1, TsV 2020 4 17 0, IntV 900, IntV 2020, IntV 4, IntV 17],
                     [IntV 2, TsV 2021 12 31 86399000000, IntV 1200, IntV 2021, IntV 12, IntV 31]],
             partitioning = Some ([''year'', ''month'', ''day''], 200)\<rparr>,
          plan_db_config = example_db_config,
          plan_options = [(''path'', Some ''s3a://bucket/historical/house/house_listings'')],
          plan_database = Some ''feature_store'',
          plan_table_name = ''house_listings'',
          plan_partition_by = [''year'', ''month'', ''day'']\<rparr>"
  unfolding load_returns[OF example_create_partitions example_guard_dynamic example_get_options]
  by (simp add: example_defs PARTITION_BY_def)

lemma example_load_calls:
  "snd (snd (load example_columns (example_writer debug) example_feature_set example_dataframe
          (example_client ''DYNAMIC'' stored))) =
     (if debug then [] else [ConfGet ''spark.sql.sources.partitionOverwriteMode'']) @
     [GetOptions ''historical/house/house_listings'']"
  unfolding load_returns[OF example_create_partitions example_guard_dynamic example_get_options]
  by (simp add: check_overwrite_mode_calls overwrite_mode_key_def example_defs)

lemma isl_create_partitions_any_writer:
  "isl (create_partitions cols s' df) = isl (create_partitions cols s df)"
  unfolding create_partitions_def
  by (simp add: repartition_df_def split: sum.splits option.splits)

lemma load_calls_eq:
  "snd (snd (load cols self fs df sc)) =
     (if isl (create_partitions cols self df) then []
      else if fst (check_overwrite_mode self sc) = None
           then snd (check_overwrite_mode self sc) @
                [GetOptions (os_path_join ''historical'' [entity fs, name fs])]
           else snd (check_overwrite_mode self sc))"
  by (simp add: load_def Let_def split: sum.splits option.splits prod.splits)

lemma os_path_join_plain:
  assumes "e \<noteq> []" and "\<not> starts_with e ''/''" and "last e \<noteq> CHR ''/''"
    and "\<not> starts_with n ''/''"
  shows "os_path_join ''historical'' [e, n] = ''historical/'' @ e @ ''/'' @ n"
  using assms by simp

lemma partition_cells_timestamp:
  "i < length r \<Longrightarrow> r ! i = TsV y m d us \<Longrightarrow> partition_cells i r = [IntV y, IntV m, IntV d]"
  by (simp add: partition_cells_def extract_field_def)

lemma lower_names:
  "lower ''id'' = ''id''" "lower ''timestamp'' = ''timestamp''" "lower ''year'' = ''year''"
  "lower ''month'' = ''month''" "lower ''day'' = ''day''"
  by (simp_all add: lower_def lower_char_def)

lemma example_year_create_partitions:
  "create_partitions example_columns self example_dataframe_year =
     Inr \<lparr>case_sensitive = False,
          schema = [(''id'', IntegerType), (''timestamp'', TimestampType), (''year'', IntegerType),
                    (''month'', IntegerType), (''day'', IntegerType)],
          rows = [[IntV 1, TsV 2020 4 17 0, IntV 2020, IntV 4, IntV 17]],
          partitioning = Some ([''year'', ''month'', ''day''], num_partitions self)\<rparr>"
  by (simp add: create_partitions_def example_columns_def example_dataframe_year_def getitem_def
      withColumn_def has_column_def same_name_def lower_names year_def month_def dayofmonth_def
      extract_field_def replace_cells_def repartition_df_def PARTITION_BY_def upt_rec)

lemma contains_validation_message_table: "contains (validation_message tn w d) tn"
proof -
  have "validation_message tn w d =
          (''Data written to the Historical Feature Store and read back from '') @ tn @
          ('' has a different count than the feature set dataframe. '' @
           [CHR 0x0A] @ ''Number of rows in '' @ tn @ '': '' @ str_int w @ ''.'' @
           [CHR 0x0A] @ ''Number of rows in the dataframe: '' @ str_int d @ ''.'')"
    by (simp add: validation_message_def)
  then show ?thesis by (simp only: contains_mid)
qed

lemma validate_calls: "snd (validate self fs df sc) = snd (written_count self (table_name self fs) sc)"
  by (simp add: validate_def Let_def split: prod.splits sum.splits)

lemma validate_after_read:
  "written_count self (table_name self fs) sc = (Inr w, calls) \<Longrightarrow>
     fst (validate self fs df sc) = assert_validation_count self (table_name self fs) w (count df)"
  by (simp add: validate_def Let_def)

lemma load_twice_check_schema:
  "check_schema self = None \<Longrightarrow>
     check_schema (fst (snd (load cols (fst (snd (load cols self fs1 df1 sc1))) fs2 df2 sc2))) =
       Some (SparkTableSchemaCompatibilityHook sc1 (name fs1) (database self))"
  by (simp add: load_writer register_check_schema_hook)

lemma load_fresh_check_schema:
  "check_schema self = None \<Longrightarrow>
     check_schema (fst (snd (load cols self fs df sc))) =
       Some (SparkTableSchemaCompatibilityHook sc (name fs) (database self))"
  by (simp add: load_writer register_check_schema_hook)

subsection \<open>The count check and validate\<close>

lemma as_float_error: "as_float a = Inl e \<Longrightarrow> \<exists>s. e = OverflowError s"
  by (cases a) (auto simp: float_of_int_def split: pyfloat.splits)

lemma float_op_error: "float_op f a b = Inl e \<Longrightarrow> \<exists>s. e = OverflowError s"
  by (auto simp: float_op_def split: sum.splits dest: as_float_error)

lemma py_ops_error:
  "py_sub a b = Inl e \<Longrightarrow> \<exists>s. e = OverflowError s"
  "py_add a b = Inl e \<Longrightarrow> \<exists>s. e = OverflowError s"
  "py_mul a b = Inl e \<Longrightarrow> \<exists>s. e = OverflowError s"
  by (cases a; cases b; auto dest: float_op_error)+

lemma assert_validation_count_cases:
  "assert_validation_count self tn w d = Inr ()
   \<or> assert_validation_count self tn w d = Inl (AssertionError (validation_message tn w d))
   \<or> (\<exists>s. assert_validation_count self tn w d = Inl (OverflowError s))"
  unfolding assert_validation_count_def Let_def
  by (auto split: sum.splits dest: py_ops_error simp del: py_ops_del)

lemma assert_validation_count_message:
  "assert_validation_count self tn w d = Inl (AssertionError msg) \<Longrightarrow>
     msg = validation_message tn w d"
  using assert_validation_count_cases[of self tn w d] by auto

lemma validate_debug:
  "debug_mode self \<Longrightarrow>
     validate self fs df sc =
       (case read_table sc (''historical_feature_store__'' @ name fs) of
          Inl e \<Rightarrow> (Inl e, [ReadTable (''historical_feature_store__'' @ name fs)])
        | Inr stored \<Rightarrow>
            (assert_validation_count self (''historical_feature_store__'' @ name fs)
               (count stored) (count df),
             [ReadTable (''historical_feature_store__'' @ name fs)]))"
  by (simp add: validate_def table_name_def written_count_def Let_def split: sum.splits)

lemma validate_normal:
  "\<not> debug_mode self \<Longrightarrow>
     validate self fs df sc =
       (case get_options (db_config self) (str_opt (database self) @ ''.'' @ name fs) of
          Inl e \<Rightarrow> (Inl e, [GetOptions (str_opt (database self) @ ''.'' @ name fs)])
        | Inr opts \<Rightarrow>
            (case read sc (format (db_config self)) opts of
               Inl e \<Rightarrow>
                 (Inl e, [GetOptions (str_opt (database self) @ ''.'' @ name fs),
                          Read (format (db_config self)) opts])
             | Inr stored \<Rightarrow>
                 (assert_validation_count self (str_opt (database self) @ ''.'' @ name fs)
                    (count stored) (count df),
                  [GetOptions (str_opt (database self) @ ''.'' @ name fs),
                   Read (format (db_config self)) opts])))"
  by (simp add: validate_def table_name_def written_count_def Let_def split: sum.splits)

lemma contains_validation_message_counts:
  "contains (validation_message tn w d) (str_int w)"
  "contains (validation_message tn w d) (str_int d)"
proof -
  have "validation_message tn w d =
          (''Data written to the Historical Feature Store and read back from '' @ tn @
           '' has a different count than the feature set dataframe. '' @
           [CHR 0x0A] @ ''Number of rows in '' @ tn @ '': '') @ str_int w @ (''.'' @
           [CHR 0x0A] @ ''Number of rows in the dataframe: '' @ str_int d @ ''.'')"
    by (simp add: validation_message_def)
  then show "contains (validation_message tn w d) (str_int w)"
    by (simp only: contains_mid)
  have "validation_message tn w d =
          (''Data written to the Historical Feature Store and read back from '' @ tn @
           '' has a different count than the feature set dataframe. '' @
           [CHR 0x0A] @ ''Number of rows in '' @ tn @ '': '' @ str_int w @ ''.'' @
           [CHR 0x0A] @ ''Number of rows in the dataframe: '') @ str_int d @ ''.''"
    by (simp add: validation_message_def)
  then show "contains (validation_message tn w d) (str_int d)"
    by (simp only: contains_mid)
qed

lemma example_threshold:
  "validation_threshold (example_writer debug) = PyFloat (Finite 5764607523034235 (- 59))"
  by (simp add: example_writer_def HistoricalFeatureStoreWriter_def
      DEFAULT_VALIDATION_THRESHOLD_def)

lemma example_stored_count: "count (example_stored n) = int n"
  by (simp add: count_def example_stored_def)

lemma lower_char_idem: "lower_char (lower_char c) = lower_char c"
  by (simp add: lower_char_def split: option.splits if_splits)

lemma lower_idem: "lower (lower s) = lower s"
  by (simp add: lower_def lower_char_idem)

lemma lower_append: "lower (a @ b) = lower a @ lower b"
  by (simp add: lower_def)

lemma contains_lower_overwrite_mode_message:
  "contains (lower (overwrite_mode_message (lower v))) (lower v)"
proof -
  have "overwrite_mode_message (lower v) =
          (''m=load_incremental, spark.sql.sources.partitionOverwriteMode='') @ lower v @
          ('', msg=partitionOverwriteMode have to be configured to '' @ [CHR 0x27] @ ''dynamic'' @
           [CHR 0x27])"
    by (simp add: overwrite_mode_message_def)
  then have "lower (overwrite_mode_message (lower v)) =
          lower (''m=load_incremental, spark.sql.sources.partitionOverwriteMode='') @ lower v @
          lower ('', msg=partitionOverwriteMode have to be configured to '' @ [CHR 0x27] @
                 ''dynamic'' @ [CHR 0x27])"
    by (simp only: lower_append lower_idem)
  then show ?thesis by (simp only: contains_mid)
qed

section \<open>The claims\<close>

subsection \<open>Count validation\<close>

text \<open>
  Claim C1, as amended. The count check passes if and only if \<open>lo \<le> d \<le> hi\<close>, where
  \<open>lo\<close> and \<open>hi\<close> are \<open>(1 - t) * w\<close> and \<open>(1 + t) * w\<close> as Python computes them and the
  comparisons with \<open>d\<close> are exact: for a float threshold \<open>t\<close> and a written count \<open>w\<close> below
  \<open>2 ^ 53\<close> in magnitude, in binary64 (the difference or sum rounded, then the product
  rounded); for an \<^verbatim>\<open>int\<close> threshold, exactly. With a threshold of \<open>0\<close> (the \<^verbatim>\<open>int\<close>, or
  the float with \<open>w\<close> below \<open>2 ^ 53\<close>) it passes if and only if \<open>d = w\<close>. When it fails it
  raises an assertion error whose message carries the table name, the written count and
  the dataframe count. \<^verbatim>\<open>validate\<close> returns what this check returns on the count of the
  dataframe read back and the count of the dataframe it was given.

  The band is not the one of exact arithmetic: with the float threshold \<^verbatim>\<open>0.13\<close>, a
  written count of 100 and a dataframe count of 113, \<open>(1 + t) * w\<close> is the float just below
  113 and the check fails, although \<open>113 \<le> (1 + t) * 100\<close> holds exactly.
\<close>

theorem validate_passes_iff:
  "(\<forall>x. validation_threshold self = PyFloat x \<and> \<bar>w\<bar> < 2 ^ 53 \<longrightarrow>
        assert_validation_count self tn w d =
          (if float_le_int (float_mul (float_sub (Finite 1 0) x) (Finite w 0)) d
              \<and> int_le_float d (float_mul (float_add (Finite 1 0) x) (Finite w 0))
           then Inr ()
           else Inl (AssertionError (validation_message tn w d))))
   \<and> (\<forall>k. validation_threshold self = PyInt k \<longrightarrow>
        assert_validation_count self tn w d =
          (if (1 - k) * w \<le> d \<and> d \<le> (1 + k) * w
           then Inr ()
           else Inl (AssertionError (validation_message tn w d))))
   \<and> (validation_threshold self = PyInt 0
        \<or> validation_threshold self = PyFloat (Finite 0 0) \<and> \<bar>w\<bar> < 2 ^ 53 \<longrightarrow>
        (assert_validation_count self tn w d = Inr ()) = (d = w))
   \<and> contains (validation_message tn w d) tn
   \<and> contains (validation_message tn w d) (str_int w)
   \<and> contains (validation_message tn w d) (str_int d)
   \<and> (\<forall>stored. debug_mode self \<and> read_table sc (table_name self fs) = Inr stored
          \<or> \<not> debug_mode self
             \<and> (\<exists>opts. get_options (db_config self) (table_name self fs) = Inr opts
                    \<and> read sc (format (db_config self)) opts = Inr stored) \<longrightarrow>
          fst (validate self fs df sc) =
            assert_validation_count self (table_name self fs) (count stored) (count df))"
proof (intro conjI allI impI)
  fix x
  assume "validation_threshold self = PyFloat x \<and> \<bar>w\<bar> < 2 ^ 53"
  then show "assert_validation_count self tn w d =
          (if float_le_int (float_mul (float_sub (Finite 1 0) x) (Finite w 0)) d
              \<and> int_le_float d (float_mul (float_add (Finite 1 0) x) (Finite w 0))
           then Inr ()
           else Inl (AssertionError (validation_message tn w d)))"
    using assert_validation_count_float by blast
next
  fix k
  assume "validation_threshold self = PyInt k"
  then show "assert_validation_count self tn w d =
          (if (1 - k) * w \<le> d \<and> d \<le> (1 + k) * w
           then Inr ()
           else Inl (AssertionError (validation_message tn w d)))"
    by (rule assert_validation_count_int)
next
  assume "validation_threshold self = PyInt 0
        \<or> validation_threshold self = PyFloat (Finite 0 0) \<and> \<bar>w\<bar> < 2 ^ 53"
  then show "(assert_validation_count self tn w d = Inr ()) = (d = w)"
    using assert_validation_count_zero_int assert_validation_count_zero_float by blast
next
  show "contains (validation_message tn w d) tn"
    by (rule contains_validation_message_table)
  show "contains (validation_message tn w d) (str_int w)"
    by (rule contains_validation_message_counts)
  show "contains (validation_message tn w d) (str_int d)"
    by (rule contains_validation_message_counts)
next
  fix stored
  assume a: "debug_mode self \<and> read_table sc (table_name self fs) = Inr stored
          \<or> \<not> debug_mode self
             \<and> (\<exists>opts. get_options (db_config self) (table_name self fs) = Inr opts
                    \<and> read sc (format (db_config self)) opts = Inr stored)"
  show "fst (validate self fs df sc) =
            assert_validation_count self (table_name self fs) (count stored) (count df)"
  proof (cases "debug_mode self")
    case True
    with a have "read_table sc (''historical_feature_store__'' @ name fs) = Inr stored"
      by (simp add: table_name_def)
    with True show ?thesis by (simp add: validate_debug table_name_def)
  next
    case False
    with a obtain opts where
      "get_options (db_config self) (str_opt (database self) @ ''.'' @ name fs) = Inr opts"
      "read sc (format (db_config self)) opts = Inr stored"
      by (auto simp: table_name_def)
    with False show ?thesis by (simp add: validate_normal table_name_def)
  qed
qed

theorem validate_passes_iff_witness:
  "assert_validation_count (example_writer False) ''t'' 100000 99500 = Inr ()
   \<and> assert_validation_count (example_writer False) ''t'' 100000 98000 =
       Inl (AssertionError (validation_message ''t'' 100000 98000))
   \<and> assert_validation_count ((example_writer False)\<lparr>validation_threshold := PyFloat (Finite 0 0)\<rparr>)
         ''t'' 100 99 \<noteq> Inr ()
   \<and> assert_validation_count ((example_writer False)\<lparr>validation_threshold := PyInt 0\<rparr>)
         ''t'' 100 100 = Inr ()
   \<and> fst (validate (example_writer False) example_feature_set (example_stored 99)
            (example_client ''DYNAMIC'' (example_stored 100))) = Inr ()
   \<and> fst (validate (example_writer True) example_feature_set (example_stored 98)
            (example_client ''DYNAMIC'' (example_stored 100))) =
       Inl (AssertionError (validation_message ''historical_feature_store__house_listings'' 100 98))"
proof -
  let ?w = "example_writer False"
  note t = example_threshold
  have e1: "assert_validation_count ?w ''t'' 100000 99500 = Inr ()"
    using validate_passes_iff[where self = ?w and w = 100000 and tn = "''t''" and d = 99500,
        THEN conjunct1]
    by (simp add: t float_default_threshold float_default_bounds)
  have e2: "assert_validation_count ?w ''t'' 100000 98000 =
      Inl (AssertionError (validation_message ''t'' 100000 98000))"
    using validate_passes_iff[where self = ?w and w = 100000 and tn = "''t''" and d = 98000,
        THEN conjunct1]
    by (simp add: t float_default_threshold float_default_bounds)
  have e3: "assert_validation_count (?w\<lparr>validation_threshold := PyFloat (Finite 0 0)\<rparr>)
      ''t'' 100 99 \<noteq> Inr ()"
    using validate_passes_iff[where self = "?w\<lparr>validation_threshold := PyFloat (Finite 0 0)\<rparr>" and w = 100
        and tn = "''t''" and d = 99,
        THEN conjunct2, THEN conjunct2, THEN conjunct1]
    by simp
  have e4: "assert_validation_count (?w\<lparr>validation_threshold := PyInt 0\<rparr>) ''t'' 100 100 = Inr ()"
    using validate_passes_iff[where self = "?w\<lparr>validation_threshold := PyInt 0\<rparr>" and w = 100
        and tn = "''t''" and d = 100,
        THEN conjunct2, THEN conjunct2, THEN conjunct1]
    by simp
  let ?sc = "example_client ''DYNAMIC'' (example_stored 100)"
  have tn: "table_name ?w example_feature_set = ''feature_store.house_listings''"
    by (simp add: table_name_def example_defs str_opt_def)
  have rd: "\<not> debug_mode ?w \<and> (\<exists>opts. get_options (db_config ?w)
      (table_name ?w example_feature_set) = Inr opts
      \<and> read ?sc (format (db_config ?w)) opts = Inr (example_stored 100))"
    by (simp add: tn) (simp add: example_defs)
  have "fst (validate ?w example_feature_set (example_stored 99) ?sc) =
      assert_validation_count ?w (table_name ?w example_feature_set)
        (count (example_stored 100)) (count (example_stored 99))"
    using validate_passes_iff[where self = ?w and sc = ?sc and fs = example_feature_set
        and df = "example_stored 99",
        THEN conjunct2, THEN conjunct2, THEN conjunct2, THEN conjunct2,
        THEN conjunct2, THEN conjunct2] rd
    by blast
  moreover have "assert_validation_count ?w (table_name ?w example_feature_set) 100 99 = Inr ()"
    using validate_passes_iff[where self = ?w and w = 100 and tn = "table_name ?w example_feature_set" and d = 99,
        THEN conjunct1]
    by (simp add: t float_default_threshold float_default_bounds)
  ultimately have e5: "fst (validate ?w example_feature_set (example_stored 99) ?sc) = Inr ()"
    by (simp add: example_stored_count)
  let ?d = "example_writer True"
  have tnd: "table_name ?d example_feature_set = ''historical_feature_store__house_listings''"
    by (simp add: table_name_def example_defs)
  have rdd: "debug_mode ?d \<and> read_table ?sc (table_name ?d example_feature_set) =
      Inr (example_stored 100)"
    by (simp add: tnd) (simp add: example_defs)
  have "fst (validate ?d example_feature_set (example_stored 98) ?sc) =
      assert_validation_count ?d (table_name ?d example_feature_set)
        (count (example_stored 100)) (count (example_stored 98))"
    using validate_passes_iff[where self = ?d and sc = ?sc and fs = example_feature_set
        and df = "example_stored 98",
        THEN conjunct2, THEN conjunct2, THEN conjunct2, THEN conjunct2,
        THEN conjunct2, THEN conjunct2] rdd
    by blast
  moreover have "assert_validation_count ?d ''historical_feature_store__house_listings'' 100 98 =
      Inl (AssertionError (validation_message ''historical_feature_store__house_listings'' 100 98))"
    using validate_passes_iff[where self = ?d and w = 100 and tn = "''historical_feature_store__house_listings''"
        and d = 98,
        THEN conjunct1]
    by (simp add: t float_default_threshold float_default_bounds)
  ultimately have e6: "fst (validate ?d example_feature_set (example_stored 98) ?sc) =
      Inl (AssertionError (validation_message ''historical_feature_store__house_listings'' 100 98))"
    by (simp add: example_stored_count tnd)
  from e1 e2 e3 e4 e5 e6 show ?thesis by blast
qed

theorem validate_passes_iff_counterexample:
  "(2 :: int) ^ 52 \<le> 4683743612465316 \<and> (4683743612465316 :: int) < 2 ^ 53
   \<and> \<bar>4683743612465316 / 2 ^ 55 - 13 / 100\<bar> < (1 / 2 ^ 56 :: rat)
   \<and> (1 - 13 / 100) * 100 \<le> (113 :: rat) \<and> (113 :: rat) \<le> (1 + 13 / 100) * 100
   \<and> (1 - 4683743612465316 / 2 ^ 55) * 100 \<le> (113 :: rat)
   \<and> (113 :: rat) \<le> (1 + 4683743612465316 / 2 ^ 55) * 100
   \<and> assert_validation_count
         ((example_writer False)\<lparr>validation_threshold := PyFloat (Finite 4683743612465316 (- 55))\<rparr>)
         ''t'' 100 113 =
       Inl (AssertionError (validation_message ''t'' 100 113))
   \<and> assert_validation_count
         ((example_writer False)\<lparr>validation_threshold := PyFloat (Finite 0 0)\<rparr>)
         ''t'' 9007199254740993 9007199254740993 =
       Inl (AssertionError (validation_message ''t'' 9007199254740993 9007199254740993))"
proof -
  let ?a = "(example_writer False)\<lparr>validation_threshold := PyFloat (Finite 4683743612465316 (- 55))\<rparr>"
  let ?z = "(example_writer False)\<lparr>validation_threshold := PyFloat (Finite 0 0)\<rparr>"
  have a: "assert_validation_count ?a ''t'' 100 113 =
      Inl (AssertionError (validation_message ''t'' 100 113))"
    by (subst assert_validation_count_float[where x = "Finite 4683743612465316 (- 55)"])
       (simp_all add: float_threshold_013)
  have z: "assert_validation_count ?z ''t'' 9007199254740993 9007199254740993 =
      Inl (AssertionError (validation_message ''t'' 9007199254740993 9007199254740993))"
    by (simp add: assert_validation_count_def float_op_def float_of_int_above_2_53
        float_one_minus_zero float_one_plus_zero float_one_times_2_53 Let_def)
  have n: "(2 :: int) ^ 52 \<le> 4683743612465316 \<and> (4683743612465316 :: int) < 2 ^ 53
   \<and> \<bar>4683743612465316 / 2 ^ 55 - 13 / 100\<bar> < (1 / 2 ^ 56 :: rat)
   \<and> (1 - 13 / 100) * 100 \<le> (113 :: rat) \<and> (113 :: rat) \<le> (1 + 13 / 100) * 100
   \<and> (1 - 4683743612465316 / 2 ^ 55) * 100 \<le> (113 :: rat)
   \<and> (113 :: rat) \<le> (1 + 4683743612465316 / 2 ^ 55) * 100"
    by simp
  from n a z show ?thesis by blast
qed

subsection \<open>Construction\<close>

text \<open>
  Claim C10. A writer constructed with \<^verbatim>\<open>num_partitions\<close> equal to \<^verbatim>\<open>None\<close> or to \<open>0\<close> has
  \<^verbatim>\<open>DEFAULT_NUM_PARTITIONS\<close> partitions: zero partitions cannot be requested. A threshold
  of \<open>0\<close>, float or \<^verbatim>\<open>int\<close>, is kept as given.
\<close>

theorem init_falsy_arguments:
  "num_partitions (HistoricalFeatureStoreWriter env c db None t dbg h) = DEFAULT_NUM_PARTITIONS env
   \<and> num_partitions (HistoricalFeatureStoreWriter env c db (Some 0) t dbg h) = DEFAULT_NUM_PARTITIONS env
   \<and> validation_threshold (HistoricalFeatureStoreWriter env c db n (PyFloat (Finite 0 0)) dbg h) =
       PyFloat (Finite 0 0)
   \<and> validation_threshold (HistoricalFeatureStoreWriter env c db n (PyInt 0) dbg h) = PyInt 0"
  by (simp add: HistoricalFeatureStoreWriter_def)

subsection \<open>The overwrite-mode guard\<close>

text \<open>
  Claim C2. Whatever value \<open>v\<close> the engine configuration holds for the partition overwrite
  mode: with debug mode off and the lower-cased \<open>v\<close> different from \<^verbatim>\<open>dynamic\<close>, \<^verbatim>\<open>load\<close>
  raises and returns no write plan (it does not get as far as the storage options, and
  once the partition columns are built the error is the run-time error of the guard); with
  debug mode on, \<^verbatim>\<open>load\<close> never reads the setting and its outcome does not depend on it.
\<close>

theorem load_overwrite_mode_guard:
  "(\<not> debug_mode self \<and> conf sc overwrite_mode_key = Some v \<and> lower v \<noteq> ''dynamic'' \<longrightarrow>
      isl (fst (load cols self fs df sc))
      \<and> (\<forall>k. GetOptions k \<notin> set (snd (snd (load cols self fs df sc))))
      \<and> (\<forall>df1. create_partitions cols self df = Inr df1 \<longrightarrow>
             fst (load cols self fs df sc) =
               Inl (RuntimeError (overwrite_mode_message (lower v)))))
   \<and> (debug_mode self \<longrightarrow>
        (\<forall>k. ConfGet k \<notin> set (snd (snd (load cols self fs df sc))))
        \<and> fst (load cols self fs df (sc\<lparr>conf := c\<rparr>)) = fst (load cols self fs df sc)
        \<and> snd (snd (load cols self fs df (sc\<lparr>conf := c\<rparr>))) = snd (snd (load cols self fs df sc)))"
proof (intro conjI impI)
  assume a: "\<not> debug_mode self \<and> conf sc overwrite_mode_key = Some v \<and> lower v \<noteq> ''dynamic''"
  then have g: "check_overwrite_mode self sc =
      (Some (RuntimeError (overwrite_mode_message (lower v))), [ConfGet overwrite_mode_key])"
    by (simp add: check_overwrite_mode_value)
  show "isl (fst (load cols self fs df sc))"
  proof (cases "create_partitions cols self df")
    case (Inl e)
    then show ?thesis by (simp add: load_create_partitions_error)
  next
    case (Inr d)
    then show ?thesis using g by (simp add: load_guard_fails)
  qed
  show "\<forall>k. GetOptions k \<notin> set (snd (snd (load cols self fs df sc)))"
  proof (cases "create_partitions cols self df")
    case (Inl e)
    then show ?thesis by (simp add: load_create_partitions_error)
  next
    case (Inr d)
    then show ?thesis using g by (simp add: load_guard_fails)
  qed
  show "\<forall>df1. create_partitions cols self df = Inr df1 \<longrightarrow>
          fst (load cols self fs df sc) = Inl (RuntimeError (overwrite_mode_message (lower v)))"
    using g by (simp add: load_guard_fails)
next
  assume d: "debug_mode self"
  then have g: "check_overwrite_mode self sc = (None, [])"
    by (rule check_overwrite_mode_debug)
  have r: "snd (snd (load cols self fs df sc)) = [] \<or>
      snd (snd (load cols self fs df sc)) = [GetOptions (os_path_join ''historical'' [entity fs, name fs])]"
    using load_calls[of cols self fs df sc] by (simp add: g)
  then show "\<forall>k. ConfGet k \<notin> set (snd (snd (load cols self fs df sc)))" by auto
  have e: "(fst (load cols self fs df (sc\<lparr>conf := c\<rparr>)), snd (snd (load cols self fs df (sc\<lparr>conf := c\<rparr>))))
      = (fst (load cols self fs df sc), snd (snd (load cols self fs df sc)))"
    unfolding load_result by (simp add: check_overwrite_mode_conf[OF d] split: sum.splits)
  from e show "fst (load cols self fs df (sc\<lparr>conf := c\<rparr>)) = fst (load cols self fs df sc)" by simp
  from e show "snd (snd (load cols self fs df (sc\<lparr>conf := c\<rparr>))) = snd (snd (load cols self fs df sc))" by simp
qed

theorem load_overwrite_mode_guard_witness:
  "fst (load example_columns (example_writer False) example_feature_set example_dataframe
          (example_client ''STATIC'' example_dataframe)) =
     Inl (RuntimeError (overwrite_mode_message ''static''))
   \<and> (\<forall>k. GetOptions k \<notin> set (snd (snd (load example_columns (example_writer False)
          example_feature_set example_dataframe (example_client ''STATIC'' example_dataframe)))))
   \<and> (\<forall>k. ConfGet k \<notin> set (snd (snd (load example_columns (example_writer True)
          example_feature_set example_dataframe (example_client ''STATIC'' example_dataframe)))))"
proof -
  let ?sc = "example_client ''STATIC'' example_dataframe"
  have low: "lower ''STATIC'' = ''static''"
    by (simp add: lower_def lower_char_def)
  have h: "\<not> debug_mode (example_writer False) \<and> conf ?sc overwrite_mode_key = Some ''STATIC''
      \<and> lower ''STATIC'' \<noteq> ''dynamic''"
    by (simp add: low example_defs overwrite_mode_key_def)
  have d: "debug_mode (example_writer True)"
    by (simp add: example_defs)
  have "fst (load example_columns (example_writer False) example_feature_set example_dataframe ?sc)
      = Inl (RuntimeError (overwrite_mode_message (lower ''STATIC'')))"
    using load_overwrite_mode_guard[where self = "example_writer False" and sc = ?sc
        and v = "''STATIC''" and cols = example_columns and fs = example_feature_set
        and df = example_dataframe] h example_create_partitions
    by blast
  moreover have "\<forall>k. GetOptions k \<notin> set (snd (snd (load example_columns (example_writer False)
      example_feature_set example_dataframe ?sc)))"
    using load_overwrite_mode_guard[where self = "example_writer False" and sc = ?sc
        and v = "''STATIC''" and cols = example_columns and fs = example_feature_set
        and df = example_dataframe] h
    by blast
  moreover have "\<forall>k. ConfGet k \<notin> set (snd (snd (load example_columns (example_writer True)
      example_feature_set example_dataframe ?sc)))"
    using load_overwrite_mode_guard[where self = "example_writer True" and sc = ?sc
        and cols = example_columns and fs = example_feature_set and df = example_dataframe] d
    by blast
  ultimately show ?thesis by (simp add: low)
qed

text \<open>
  Claim C9. With debug mode off and an overwrite mode \<open>v\<close> whose lower-cased form is not
  \<^verbatim>\<open>dynamic\<close>, the error \<^verbatim>\<open>load\<close> raises carries the mode value in its message: the value
  \<^verbatim>\<open>load\<close> observes is the lower-cased \<open>v\<close> (the variable \<^verbatim>\<open>partition_overwrite_mode\<close>,
  which is both compared and formatted), it occurs in the message as it is, and so \<open>v\<close>
  occurs in the message up to the case of its letters.
\<close>

theorem overwrite_mode_error_message:
  assumes "\<not> debug_mode self" and "conf sc overwrite_mode_key = Some v"
    and "lower v \<noteq> ''dynamic''" and "create_partitions cols self df = Inr df1"
  shows "fst (load cols self fs df sc) = Inl (RuntimeError (overwrite_mode_message (lower v)))
       \<and> contains (overwrite_mode_message (lower v)) (lower v)
       \<and> contains (lower (overwrite_mode_message (lower v))) (lower v)"
proof -
  have "check_overwrite_mode self sc =
      (Some (RuntimeError (overwrite_mode_message (lower v))), [ConfGet overwrite_mode_key])"
    using assms(1-3) by (simp add: check_overwrite_mode_value)
  with assms(4) have "fst (load cols self fs df sc) =
      Inl (RuntimeError (overwrite_mode_message (lower v)))"
    by (simp add: load_guard_fails)
  then show ?thesis
    by (simp add: contains_overwrite_mode_message contains_lower_overwrite_mode_message)
qed

theorem overwrite_mode_error_message_witness:
  "fst (load example_columns (example_writer False) example_feature_set example_dataframe
          (example_client ''STATIC'' example_dataframe)) =
     Inl (RuntimeError (overwrite_mode_message ''static''))
   \<and> contains (overwrite_mode_message ''static'') ''static''
   \<and> contains (lower (overwrite_mode_message ''static'')) (lower ''STATIC'')"
proof -
  let ?sc = "example_client ''STATIC'' example_dataframe"
  have low: "lower ''STATIC'' = ''static''"
    by (simp add: lower_def lower_char_def)
  have h1: "\<not> debug_mode (example_writer False)" by (simp add: example_defs)
  have h2: "conf ?sc overwrite_mode_key = Some ''STATIC''"
    by (simp add: example_defs overwrite_mode_key_def)
  have h3: "lower ''STATIC'' \<noteq> ''dynamic''" by (simp add: low)
  show ?thesis
    using overwrite_mode_error_message[OF h1 h2 h3 example_create_partitions,
        of example_feature_set]
    by (simp add: low)
qed

subsection \<open>The write plan\<close>

text \<open>
  Claim C4. Whenever \<^verbatim>\<open>load\<close> returns a write plan, its list of partition columns is the
  partition year, the partition month and the partition day, in this order, whatever the
  feature set and the dataframe.
\<close>

theorem load_partition_by:
  "fst (load cols self fs df sc) = Inr plan \<Longrightarrow>
     plan_partition_by plan = [PARTITION_YEAR cols, PARTITION_MONTH cols, PARTITION_DAY cols]"
  using load_plan[of cols self fs df sc plan] by (simp add: PARTITION_BY_def)

theorem load_partition_by_witness:
  "\<exists>plan. fst (load example_columns (example_writer False) example_feature_set example_dataframe
             (example_client ''DYNAMIC'' example_dataframe)) = Inr plan
        \<and> plan_partition_by plan = [''year'', ''month'', ''day'']"
proof -
  obtain plan where p: "fst (load example_columns (example_writer False) example_feature_set
      example_dataframe (example_client ''DYNAMIC'' example_dataframe)) = Inr plan"
    using example_load_fst by blast
  from load_partition_by[OF p]
  have "plan_partition_by plan = [''year'', ''month'', ''day'']"
    by (simp add: example_columns_def)
  with p show ?thesis by blast
qed

text \<open>
  Claim C5. The logical key \<^verbatim>\<open>load\<close> passes to the option lookup of the storage
  configuration is \<^verbatim>\<open>os.path.join("historical", feature_set.entity, feature_set.name)\<close>:
  no other key is looked up, a returned plan was built from the options of this key, and
  the calls made do not change with the database name or the partition count of the
  writer. For an entity and a name that are plain path segments the key reads
  \<^verbatim>\<open>historical/<entity>/<name>\<close>.
\<close>

theorem load_storage_key:
  "(\<forall>k. GetOptions k \<in> set (snd (snd (load cols self fs df sc))) \<longrightarrow>
        k = os_path_join ''historical'' [entity fs, name fs])
   \<and> (\<forall>plan. fst (load cols self fs df sc) = Inr plan \<longrightarrow>
          GetOptions (os_path_join ''historical'' [entity fs, name fs])
            \<in> set (snd (snd (load cols self fs df sc)))
          \<and> (\<exists>opts. get_options (db_config self)
                        (os_path_join ''historical'' [entity fs, name fs]) = Inr opts
                 \<and> plan_options plan = [(''path'', map_of opts ''path'')]))
   \<and> snd (snd (load cols (self\<lparr>database := d, num_partitions := n\<rparr>) fs df sc)) =
       snd (snd (load cols self fs df sc))
   \<and> (entity fs \<noteq> [] \<and> \<not> starts_with (entity fs) ''/'' \<and> last (entity fs) \<noteq> CHR ''/''
        \<and> \<not> starts_with (name fs) ''/'' \<longrightarrow>
        os_path_join ''historical'' [entity fs, name fs] =
          ''historical/'' @ entity fs @ ''/'' @ name fs)"
proof (intro conjI allI impI)
  fix k
  assume "GetOptions k \<in> set (snd (snd (load cols self fs df sc)))"
  then show "k = os_path_join ''historical'' [entity fs, name fs]"
    by (auto simp: load_calls_eq check_overwrite_mode_calls split: if_splits)
next
  fix plan
  assume p: "fst (load cols self fs df sc) = Inr plan"
  from load_plan[OF p] have c: "create_partitions cols self df = Inr (plan_dataframe plan)"
    and g: "fst (check_overwrite_mode self sc) = None"
    and o: "\<exists>opts. get_options (db_config self)
                        (os_path_join ''historical'' [entity fs, name fs]) = Inr opts
                 \<and> plan_options plan = [(''path'', map_of opts ''path'')]"
    by simp_all
  show "GetOptions (os_path_join ''historical'' [entity fs, name fs])
            \<in> set (snd (snd (load cols self fs df sc)))"
    by (simp add: load_calls_eq c g)
  show "\<exists>opts. get_options (db_config self)
                        (os_path_join ''historical'' [entity fs, name fs]) = Inr opts
                 \<and> plan_options plan = [(''path'', map_of opts ''path'')]"
    by (rule o)
next
  have "check_overwrite_mode (self\<lparr>database := d, num_partitions := n\<rparr>) sc = check_overwrite_mode self sc"
    by (simp add: check_overwrite_mode_def)
  then show "snd (snd (load cols (self\<lparr>database := d, num_partitions := n\<rparr>) fs df sc)) =
       snd (snd (load cols self fs df sc))"
    by (simp add: load_calls_eq
        isl_create_partitions_any_writer[of cols "self\<lparr>database := d, num_partitions := n\<rparr>" df self])
next
  assume "entity fs \<noteq> [] \<and> \<not> starts_with (entity fs) ''/'' \<and> last (entity fs) \<noteq> CHR ''/''
        \<and> \<not> starts_with (name fs) ''/''"
  then show "os_path_join ''historical'' [entity fs, name fs] =
          ''historical/'' @ entity fs @ ''/'' @ name fs"
    by (simp add: os_path_join_plain)
qed

theorem load_storage_key_witness:
  "snd (snd (load example_columns (example_writer False) example_feature_set example_dataframe
          (example_client ''DYNAMIC'' example_dataframe))) =
     [ConfGet ''spark.sql.sources.partitionOverwriteMode'',
      GetOptions ''historical/house/house_listings'']
   \<and> os_path_join ''historical'' [entity example_feature_set, name example_feature_set] =
       ''historical/house/house_listings''
   \<and> (\<exists>plan. fst (load example_columns (example_writer False) example_feature_set
                  example_dataframe (example_client ''DYNAMIC'' example_dataframe)) = Inr plan
          \<and> plan_options plan = [(''path'', Some ''s3a://bucket/historical/house/house_listings'')])"
proof -
  let ?sc = "example_client ''DYNAMIC'' example_dataframe"
  note T = load_storage_key[where cols = example_columns and self = "example_writer False"
      and fs = example_feature_set and df = example_dataframe and sc = ?sc]
  have h: "entity example_feature_set \<noteq> [] \<and> \<not> starts_with (entity example_feature_set) ''/''
      \<and> last (entity example_feature_set) \<noteq> CHR ''/''
      \<and> \<not> starts_with (name example_feature_set) ''/''"
    by (simp add: example_feature_set_def)
  from T h have j: "os_path_join ''historical'' [entity example_feature_set, name example_feature_set]
      = ''historical/'' @ entity example_feature_set @ ''/'' @ name example_feature_set"
    by blast
  then have j': "os_path_join ''historical'' [entity example_feature_set, name example_feature_set]
      = ''historical/house/house_listings''"
    by (simp add: example_feature_set_def)
  obtain plan where p: "fst (load example_columns (example_writer False) example_feature_set
      example_dataframe ?sc) = Inr plan"
    and po: "plan_options plan = [(''path'', Some ''s3a://bucket/historical/house/house_listings'')]"
    using example_load_fst[of False example_dataframe] by simp
  from T p have "GetOptions (os_path_join ''historical'' [entity example_feature_set,
      name example_feature_set]) \<in> set (snd (snd (load example_columns (example_writer False)
      example_feature_set example_dataframe ?sc)))"
    by blast
  have c: "snd (snd (load example_columns (example_writer False) example_feature_set
      example_dataframe ?sc)) = [ConfGet ''spark.sql.sources.partitionOverwriteMode'',
      GetOptions ''historical/house/house_listings'']"
    by (simp add: example_load_calls)
  from c j' p po show ?thesis by blast
qed

subsection \<open>The partition columns\<close>

text \<open>
  Claim C3, as amended. Let the event-time column of the input resolve to exactly one
  column, of timestamp type, let the input have no column that the session resolves to the
  partition year, month or day, and let these three names differ. Then the partition step
  returns, and every plan \<^verbatim>\<open>load\<close> returns holds, the input dataframe with exactly three
  integer columns appended (year, month, day, in this order) whose cells in every row are
  the calendar fields of that row's event-time cell, repartitioned by the three columns.
\<close>

theorem load_adds_partition_columns:
  assumes "getitem df (TIMESTAMP_COLUMN cols) = Inr (ColRef i)"
    and "snd (schema df ! i) = TimestampType"
    and "\<not> has_column df (PARTITION_YEAR cols)"
    and "\<not> has_column df (PARTITION_MONTH cols)"
    and "\<not> has_column df (PARTITION_DAY cols)"
    and "\<not> same_name df (PARTITION_YEAR cols) (PARTITION_MONTH cols)"
    and "\<not> same_name df (PARTITION_YEAR cols) (PARTITION_DAY cols)"
    and "\<not> same_name df (PARTITION_MONTH cols) (PARTITION_DAY cols)"
  shows "create_partitions cols self df =
           Inr (with_partition_columns cols i (num_partitions self) df)
       \<and> (\<forall>plan. fst (load cols self fs df sc) = Inr plan \<longrightarrow>
              plan_dataframe plan = with_partition_columns cols i (num_partitions self) df)
       \<and> (\<forall>r y m d us. i < length r \<and> r ! i = TsV y m d us \<longrightarrow>
              partition_cells i r = [IntV y, IntV m, IntV d])"
proof -
  have c: "create_partitions cols self df =
      Inr (with_partition_columns cols i (num_partitions self) df)"
    unfolding with_partition_columns_def by (rule create_partitions_appends[OF assms])
  have "plan_dataframe plan = with_partition_columns cols i (num_partitions self) df"
    if "fst (load cols self fs df sc) = Inr plan" for plan
    using load_plan[OF that] c by simp
  then show ?thesis using c partition_cells_timestamp by blast
qed

theorem load_adds_partition_columns_witness:
  "\<exists>plan. fst (load example_columns (example_writer False) example_feature_set example_dataframe
             (example_client ''DYNAMIC'' example_dataframe)) = Inr plan
     \<and> schema (plan_dataframe plan) =
         schema example_dataframe @
         [(''year'', IntegerType), (''month'', IntegerType), (''day'', IntegerType)]
     \<and> rows (plan_dataframe plan) =
         [[IntV 1, TsV 2020 4 17 0, IntV 900, IntV 2020, IntV 4, IntV 17],
          [IntV 2, TsV 2021 12 31 86399000000, IntV 1200, IntV 2021, IntV 12, IntV 31]]"
proof -
  let ?sc = "example_client ''DYNAMIC'' example_dataframe"
  have ty: "snd (schema example_dataframe ! 1) = TimestampType"
    by (simp add: example_dataframe_def)
  note T = load_adds_partition_columns[OF example_getitem ty example_no_partition_columns
      example_distinct_names, of "example_writer False" example_feature_set ?sc]
  obtain plan where p: "fst (load example_columns (example_writer False) example_feature_set
      example_dataframe ?sc) = Inr plan"
    using example_load_fst by blast
  with T have d: "plan_dataframe plan =
      with_partition_columns example_columns 1 (num_partitions (example_writer False)) example_dataframe"
    by blast
  have s: "schema (plan_dataframe plan) = schema example_dataframe @
         [(''year'', IntegerType), (''month'', IntegerType), (''day'', IntegerType)]"
    unfolding d by (simp add: with_partition_columns_def example_columns_def)
  have r: "rows (plan_dataframe plan) =
         [[IntV 1, TsV 2020 4 17 0, IntV 900, IntV 2020, IntV 4, IntV 17],
          [IntV 2, TsV 2021 12 31 86399000000, IntV 1200, IntV 2021, IntV 12, IntV 31]]"
    unfolding d
    by (simp add: with_partition_columns_def example_dataframe_def partition_cells_def
        extract_field_def)
  from p s r show ?thesis by blast
qed

theorem load_adds_partition_columns_counterexample:
  "getitem example_dataframe_year (TIMESTAMP_COLUMN example_columns) = Inr (ColRef 1)
   \<and> snd (schema example_dataframe_year ! 1) = TimestampType
   \<and> (\<exists>plan. fst (load example_columns (example_writer False) example_feature_set
                  example_dataframe_year (example_client ''DYNAMIC'' example_dataframe_year))
               = Inr plan
          \<and> schema (plan_dataframe plan) =
              [(''id'', IntegerType), (''timestamp'', TimestampType), (''year'', IntegerType),
               (''month'', IntegerType), (''day'', IntegerType)]
          \<and> length (schema (plan_dataframe plan)) = length (schema example_dataframe_year) + 2
          \<and> rows example_dataframe_year = [[IntV 1, TsV 2020 4 17 0, IntV 1999]]
          \<and> rows (plan_dataframe plan) = [[IntV 1, TsV 2020 4 17 0, IntV 2020, IntV 4, IntV 17]])"
proof -
  let ?sc = "example_client ''DYNAMIC'' example_dataframe_year"
  have g: "getitem example_dataframe_year (TIMESTAMP_COLUMN example_columns) = Inr (ColRef 1)"
    by (simp add: getitem_def example_dataframe_year_def example_columns_def same_name_def
        lower_names upt_rec)
  have ty: "snd (schema example_dataframe_year ! 1) = TimestampType"
    by (simp add: example_dataframe_year_def)
  have l: "fst (load example_columns (example_writer False) example_feature_set
      example_dataframe_year ?sc) =
      Inr \<lparr>plan_dataframe =
             \<lparr>case_sensitive = False,
              schema = [(''id'', IntegerType), (''timestamp'', TimestampType),
                        (''year'', IntegerType), (''month'', IntegerType), (''day'', IntegerType)],
              rows = [[IntV 1, TsV 2020 4 17 0, IntV 2020, IntV 4, IntV 17]],
              partitioning = Some ([''year'', ''month'', ''day''],
                                   num_partitions (example_writer False))\<rparr>,
           plan_db_config = db_config (example_writer False),
           plan_options = [(''path'', map_of [(''mode'', ''overwrite''), (''format'', ''parquet''),
              (''path'', ''s3a://bucket/historical/house/house_listings'')] ''path'')],
           plan_database = database (example_writer False),
           plan_table_name = name example_feature_set,
           plan_partition_by = PARTITION_BY example_columns\<rparr>"
    unfolding load_returns[OF example_year_create_partitions example_guard_dynamic
        example_get_options]
    by simp
  show ?thesis
    unfolding l using g ty by (simp add: example_dataframe_year_def)
qed

subsection \<open>The table read back\<close>

text \<open>
  Claim C6. In debug mode \<^verbatim>\<open>validate\<close> reads the table named
  \<^verbatim>\<open>historical_feature_store__\<close> followed by the name of the feature set, through one
  direct table read, and checks the count of the rows it got. In normal mode it looks up
  the storage options of \<^verbatim>\<open>{database}.{feature_set.name}\<close>, reads with the format of the
  storage configuration and these options, and checks the count of the rows it got. An
  error of a collaborator is passed on. Every assertion error of the count check names the
  same table.
\<close>

theorem validate_reads_table:
  "(debug_mode self \<longrightarrow>
       table_name self fs = ''historical_feature_store__'' @ name fs
     \<and> validate self fs df sc =
         (case read_table sc (''historical_feature_store__'' @ name fs) of
            Inl e \<Rightarrow> (Inl e, [ReadTable (''historical_feature_store__'' @ name fs)])
          | Inr stored \<Rightarrow>
              (assert_validation_count self (''historical_feature_store__'' @ name fs)
                 (count stored) (count df),
               [ReadTable (''historical_feature_store__'' @ name fs)])))
   \<and> (\<not> debug_mode self \<longrightarrow>
       table_name self fs = str_opt (database self) @ ''.'' @ name fs
     \<and> validate self fs df sc =
         (case get_options (db_config self) (str_opt (database self) @ ''.'' @ name fs) of
            Inl e \<Rightarrow> (Inl e, [GetOptions (str_opt (database self) @ ''.'' @ name fs)])
          | Inr opts \<Rightarrow>
              (case read sc (format (db_config self)) opts of
                 Inl e \<Rightarrow>
                   (Inl e, [GetOptions (str_opt (database self) @ ''.'' @ name fs),
                            Read (format (db_config self)) opts])
               | Inr stored \<Rightarrow>
                   (assert_validation_count self (str_opt (database self) @ ''.'' @ name fs)
                      (count stored) (count df),
                    [GetOptions (str_opt (database self) @ ''.'' @ name fs),
                     Read (format (db_config self)) opts]))))
   \<and> (\<forall>w d msg. assert_validation_count self (table_name self fs) w d =
                     Inl (AssertionError msg) \<longrightarrow>
          msg = validation_message (table_name self fs) w d
          \<and> contains msg (table_name self fs))"
proof (intro conjI impI allI)
  assume d: "debug_mode self"
  then show "table_name self fs = ''historical_feature_store__'' @ name fs"
    by (simp add: table_name_def)
  from d show "validate self fs df sc =
         (case read_table sc (''historical_feature_store__'' @ name fs) of
            Inl e \<Rightarrow> (Inl e, [ReadTable (''historical_feature_store__'' @ name fs)])
          | Inr stored \<Rightarrow>
              (assert_validation_count self (''historical_feature_store__'' @ name fs)
                 (count stored) (count df),
               [ReadTable (''historical_feature_store__'' @ name fs)]))"
    by (rule validate_debug)
next
  assume d: "\<not> debug_mode self"
  then show "table_name self fs = str_opt (database self) @ ''.'' @ name fs"
    by (simp add: table_name_def)
  from d show "validate self fs df sc =
         (case get_options (db_config self) (str_opt (database self) @ ''.'' @ name fs) of
            Inl e \<Rightarrow> (Inl e, [GetOptions (str_opt (database self) @ ''.'' @ name fs)])
          | Inr opts \<Rightarrow>
              (case read sc (format (db_config self)) opts of
                 Inl e \<Rightarrow>
                   (Inl e, [GetOptions (str_opt (database self) @ ''.'' @ name fs),
                            Read (format (db_config self)) opts])
               | Inr stored \<Rightarrow>
                   (assert_validation_count self (str_opt (database self) @ ''.'' @ name fs)
                      (count stored) (count df),
                    [GetOptions (str_opt (database self) @ ''.'' @ name fs),
                     Read (format (db_config self)) opts])))"
    by (rule validate_normal)
next
  fix w d msg
  assume a: "assert_validation_count self (table_name self fs) w d = Inl (AssertionError msg)"
  then show m: "msg = validation_message (table_name self fs) w d"
    by (rule assert_validation_count_message)
  show "contains msg (table_name self fs)"
    unfolding m by (rule contains_validation_message_table)
qed

theorem validate_reads_table_witness:
  "validate (example_writer True) example_feature_set example_dataframe
      (example_client ''DYNAMIC'' (example_stored 100)) =
     (Inl (AssertionError (validation_message ''historical_feature_store__house_listings'' 100 2)),
      [ReadTable ''historical_feature_store__house_listings''])
   \<and> validate (example_writer False) example_feature_set (example_stored 100)
      (example_client ''DYNAMIC'' (example_stored 100)) =
     (Inr (),
      [GetOptions ''feature_store.house_listings'',
       Read ''parquet'' [(''mode'', ''overwrite''), (''format'', ''parquet''),
                         (''path'', ''s3a://bucket/feature_store.house_listings'')]])
   \<and> contains (validation_message ''historical_feature_store__house_listings'' 100 2)
         ''historical_feature_store__house_listings''"
proof -
  let ?sc = "example_client ''DYNAMIC'' (example_stored 100)"
  let ?d = "example_writer True" and ?n = "example_writer False"
  have d: "debug_mode ?d" and n: "\<not> debug_mode ?n"
    by (simp_all add: example_defs)
  have nm: "name example_feature_set = ''house_listings''"
    by (simp add: example_feature_set_def)
  have cd: "count example_dataframe = 2"
    by (simp add: count_def example_dataframe_def)
  have rt: "read_table ?sc ''historical_feature_store__house_listings'' = Inr (example_stored 100)"
    by (simp add: example_client_def)
  have ad: "assert_validation_count ?d ''historical_feature_store__house_listings'' 100 2 =
      Inl (AssertionError (validation_message ''historical_feature_store__house_listings'' 100 2))"
    by (subst assert_validation_count_float[OF example_threshold])
       (simp_all add: float_default_threshold float_default_bounds)
  have an: "assert_validation_count ?n ''feature_store.house_listings'' 100 100 = Inr ()"
    by (subst assert_validation_count_float[OF example_threshold])
       (simp_all add: float_default_threshold float_default_bounds)
  have go: "get_options (db_config ?n) ''feature_store.house_listings'' =
      Inr [(''mode'', ''overwrite''), (''format'', ''parquet''),
           (''path'', ''s3a://bucket/feature_store.house_listings'')]"
    and fm: "format (db_config ?n) = ''parquet''"
    and db: "str_opt (database ?n) = ''feature_store''"
    by (simp_all add: example_defs str_opt_def)
  have rd: "read ?sc ''parquet'' opts = Inr (example_stored 100)" for opts
    by (simp add: example_client_def)
  note T1 = validate_reads_table[where self = ?d and fs = example_feature_set
      and df = example_dataframe and sc = ?sc, THEN conjunct1, THEN mp, OF d, THEN conjunct2]
  note T2 = validate_reads_table[where self = ?n and fs = example_feature_set
      and df = "example_stored 100" and sc = ?sc, THEN conjunct2, THEN conjunct1, THEN mp, OF n,
      THEN conjunct2]
  note T3 = validate_reads_table[where self = ?d and fs = example_feature_set,
      THEN conjunct2, THEN conjunct2]
  have v1: "validate ?d example_feature_set example_dataframe ?sc =
     (Inl (AssertionError (validation_message ''historical_feature_store__house_listings'' 100 2)),
      [ReadTable ''historical_feature_store__house_listings''])"
    unfolding T1 by (simp add: nm rt example_stored_count cd ad)
  have v2: "validate ?n example_feature_set (example_stored 100) ?sc =
     (Inr (),
      [GetOptions ''feature_store.house_listings'',
       Read ''parquet'' [(''mode'', ''overwrite''), (''format'', ''parquet''),
                         (''path'', ''s3a://bucket/feature_store.house_listings'')]])"
    unfolding T2 by (simp add: nm db go fm rd example_stored_count an)
  have tn: "table_name ?d example_feature_set = ''historical_feature_store__house_listings''"
    by (simp add: table_name_def d nm)
  from T3 ad have v3: "contains (validation_message ''historical_feature_store__house_listings'' 100 2)
         ''historical_feature_store__house_listings''"
    unfolding tn by blast
  from v1 v2 v3 show ?thesis by blast
qed

subsection \<open>The threshold and the state of the writer\<close>

text \<open>
  Claim C7, as amended. The constructor stores the threshold it is given, as given: no
  range is checked, so the threshold of a writer lies in \<open>[0, 1]\<close> exactly when the value
  passed to the constructor does. \<^verbatim>\<open>load\<close> leaves the threshold of the writer unchanged
  (\<^verbatim>\<open>validate\<close> does not change the writer at all).
\<close>

theorem threshold_fixed_at_construction:
  "validation_threshold (HistoricalFeatureStoreWriter env c db n t dbg h) = t
   \<and> validation_threshold (fst (snd (load cols self fs df sc))) = validation_threshold self"
  by (simp add: HistoricalFeatureStoreWriter_def load_writer)

theorem threshold_fixed_at_construction_counterexample:
  "\<not> int_le_num 0 (validation_threshold
           (HistoricalFeatureStoreWriter example_environment None None None
              (PyFloat (Finite (- 1) (- 1))) False None))
   \<and> \<not> num_le_int (validation_threshold
           (HistoricalFeatureStoreWriter example_environment None None None
              (PyInt 2) False None)) 1"
  by (simp add: HistoricalFeatureStoreWriter_def)

text \<open>
  Claim C8 says that a writer used again for another feature set behaves as a fresh writer
  would, its schema hook being the one of the later feature set. The code keeps the hook
  it built first: after \<^verbatim>\<open>load\<close> for the feature set \<^verbatim>\<open>house_listings\<close>, \<^verbatim>\<open>load\<close> for
  \<^verbatim>\<open>user_orders\<close> on the same writer plans a write to the table \<^verbatim>\<open>user_orders\<close> while
  the hook of the writer still checks the table \<^verbatim>\<open>house_listings\<close>; a fresh writer gets
  the hook of \<^verbatim>\<open>user_orders\<close>.
\<close>

theorem load_keeps_first_hook:
  "check_schema (example_writer False) = None
   \<and> check_schema (fst (snd (load example_columns
        (fst (snd (load example_columns (example_writer False) example_feature_set
                     example_dataframe (example_client ''DYNAMIC'' example_dataframe))))
        example_feature_set2 example_dataframe (example_client ''DYNAMIC'' example_dataframe)))) =
       Some (SparkTableSchemaCompatibilityHook (example_client ''DYNAMIC'' example_dataframe)
               ''house_listings'' (Some ''feature_store''))
   \<and> check_schema (fst (snd (load example_columns (example_writer False) example_feature_set2
        example_dataframe (example_client ''DYNAMIC'' example_dataframe)))) =
       Some (SparkTableSchemaCompatibilityHook (example_client ''DYNAMIC'' example_dataframe)
               ''user_orders'' (Some ''feature_store''))
   \<and> plan_table_name (projr (fst (load example_columns
        (fst (snd (load example_columns (example_writer False) example_feature_set
                     example_dataframe (example_client ''DYNAMIC'' example_dataframe))))
        example_feature_set2 example_dataframe (example_client ''DYNAMIC'' example_dataframe)))) =
       ''user_orders''"
proof -
  have n: "check_schema (example_writer False) = None"
    by (simp add: example_defs)
  have db: "database (example_writer False) = Some ''feature_store''"
    by (simp add: example_defs)
  have n1: "name example_feature_set = ''house_listings''"
    and n2: "name example_feature_set2 = ''user_orders''"
    by (simp_all add: example_feature_set_def example_feature_set2_def)
  let ?sc = "example_client ''DYNAMIC'' example_dataframe"
  let ?w1 = "fst (snd (load example_columns (example_writer False) example_feature_set
                     example_dataframe ?sc))"
  have w1: "?w1 = register_check_schema (example_writer False) example_feature_set ?sc"
    by (rule load_writer)
  have g: "fst (check_overwrite_mode ?w1 ?sc) = None"
    unfolding w1 by (simp add: example_guard_dynamic)
  have o: "get_options (db_config ?w1)
      (os_path_join ''historical'' [entity example_feature_set2, name example_feature_set2]) =
      Inr [(''mode'', ''overwrite''), (''format'', ''parquet''),
           (''path'', ''s3a://bucket/historical/user/user_orders'')]"
    unfolding w1 by (simp add: example_defs example_feature_set2_def)
  have p: "plan_table_name (projr (fst (load example_columns ?w1 example_feature_set2
      example_dataframe ?sc))) = ''user_orders''"
    unfolding load_returns[OF example_create_partitions g o] by (simp add: n2)
  show ?thesis
    using n p by (simp add: load_twice_check_schema load_fresh_check_schema db n1 n2)
qed

end
